theory Spec2Isabelle
  imports Complex_Main "HOL-Library.Sublist"
begin

section \<open>The table store and the files the commands work on\<close>

text \<open>
  The commands of \<^verbatim>\<open>main.py\<close> and the class \<^verbatim>\<open>plot_features\<close> of \<^verbatim>\<open>plot.py\<close>
  work on SQLite files through pandas (\<^verbatim>\<open>to_sql\<close>, \<^verbatim>\<open>read_sql\<close>) and plain SQL.
  A cell is NULL or a datum, a row maps column names to cells, a table is its list of
  rows and a database maps table names to tables. SQLite compares identifiers without
  regard to ASCII case (\<^verbatim>\<open>export\<close> selects from \<^verbatim>\<open>node\<close>, \<^verbatim>\<open>quantify\<close> writes
  \<^verbatim>\<open>NODE\<close>), so table names are stored upper-cased.
\<close>

type_synonym path = string

datatype val = Null | Text string

type_synonym row = "(string \<times> val) list"

type_synonym table = "row list"

type_synonym db = "string \<rightharpoonup> table"

datatype content = Sqlite db | Csv table | Raw string

type_synonym fs = "path \<rightharpoonup> content"

datatype error =
    UsageError string
  | NameError string
  | SameFileError path
  | FileNotFoundError path
  | DatabaseError string
  | ValueError string
  | OperationalError string
  | TypeError string
  | StageError string

datatype stage = Monomer | Scoring | Significance | QuantitativeMatrix | QuantitativeTest

datatype event =
    Copied path path
  | Started stage
  | Wrote path string
  | WroteCsv path
  | SavedFig path

record world =
  files :: fs
  trace :: "event list"

type_synonym 'a cmd = "world \<Rightarrow> (error + 'a) \<times> world"

definition return_ok :: "'a \<Rightarrow> 'a cmd" where
  "return_ok a w = (Inr a, w)"

definition raise :: "error \<Rightarrow> 'a cmd" where
  "raise e w = (Inl e, w)"

text \<open>Sequencing: an exception of the first statement ends the command.\<close>

definition and_then :: "'a cmd \<Rightarrow> ('a \<Rightarrow> 'b cmd) \<Rightarrow> 'b cmd" where
  "and_then m f w = (case m w of (Inl e, w') \<Rightarrow> (Inl e, w') | (Inr a, w') \<Rightarrow> f a w')"

definition toupper :: "char \<Rightarrow> char" where
  "toupper c =
     (case map_of (zip ''abcdefghijklmnopqrstuvwxyz'' ''ABCDEFGHIJKLMNOPQRSTUVWXYZ'') c of
        None \<Rightarrow> c
      | Some u \<Rightarrow> u)"

definition upper :: "string \<Rightarrow> string" where
  "upper s = map toupper s"

text \<open>
  \<^verbatim>\<open>sqlite3.connect(p)\<close> followed by a statement: a path with no file is a new, empty
  database; a file that is no database fails at the first statement.
\<close>

definition read_db :: "fs \<Rightarrow> path \<Rightarrow> error + db" where
  "read_db f p =
     (case f p of
        None \<Rightarrow> Inr Map.empty
      | Some (Sqlite d) \<Rightarrow> Inr d
      | Some _ \<Rightarrow> Inl (DatabaseError ''file is not a database''))"

text \<open>\<^verbatim>\<open>click.Path(exists=True)\<close>: the command is refused when the path has no file.\<close>

definition path_exists :: "path \<Rightarrow> unit cmd" where
  "path_exists p w =
     (case files w p of
        None \<Rightarrow> (Inl (UsageError p), w)
      | Some _ \<Rightarrow> (Inr (), w))"

text \<open>\<^verbatim>\<open>shutil.copyfile(src, dst)\<close>.\<close>

definition copyfile :: "path \<Rightarrow> path \<Rightarrow> unit cmd" where
  "copyfile src dst w =
     (if src = dst then (Inl (SameFileError src), w)
      else case files w src of
        None \<Rightarrow> (Inl (FileNotFoundError src), w)
      | Some f \<Rightarrow> (Inr (), w\<lparr>files := (files w)(dst \<mapsto> f), trace := trace w @ [Copied src dst]\<rparr>))"

text \<open>
  \<^verbatim>\<open>df.to_sql(name, con, index=False, if_exists=...)\<close> on a connection to \<open>p\<close>:
  pandas' default \<^verbatim>\<open>if_exists='fail'\<close> raises \<^verbatim>\<open>ValueError\<close> on an existing table,
  \<^verbatim>\<open>'replace'\<close> drops the table and writes the frame, \<^verbatim>\<open>'append'\<close> adds its rows.
\<close>

datatype if_exists = Fail | Replace | Append

definition write_table :: "db \<Rightarrow> string \<Rightarrow> table \<Rightarrow> if_exists \<Rightarrow> error + db" where
  "write_table d name t m =
     (case m of
        Fail \<Rightarrow> (if upper name \<in> dom d then Inl (ValueError name) else Inr (d(upper name \<mapsto> t)))
      | Replace \<Rightarrow> Inr (d(upper name \<mapsto> t))
      | Append \<Rightarrow> Inr (d(upper name \<mapsto> (case d (upper name) of None \<Rightarrow> t | Some old \<Rightarrow> old @ t))))"

definition to_sql :: "path \<Rightarrow> string \<Rightarrow> table \<Rightarrow> if_exists \<Rightarrow> unit cmd" where
  "to_sql p name t m w =
     (case read_db (files w) p of
        Inl e \<Rightarrow> (Inl e, w)
      | Inr d \<Rightarrow>
          (case write_table d name t m of
             Inl e \<Rightarrow> (Inl e, w)
           | Inr d' \<Rightarrow> (Inr (), w\<lparr>files := (files w)(p \<mapsto> Sqlite d'), trace := trace w @ [Wrote p (upper name)]\<rparr>)))"

section \<open>The imported stage functions\<close>

text \<open>
  \<^verbatim>\<open>main.py\<close> imports \<^verbatim>\<open>monomer\<close>, \<^verbatim>\<open>scoring\<close>, \<^verbatim>\<open>significance\<close>,
  \<^verbatim>\<open>quantitative_matrix\<close> and \<^verbatim>\<open>quantitative_test\<close> from modules that are not part
  of the sources at hand. Each is called with the path of the working file and its
  options and returns an object holding data frames, or raises. They are parameters of
  the model: functions of the database found at that path and of the options, giving
  the frames or an error.
\<close>

record qt =
  edge_directional :: table
  edge :: table
  edge_level :: table
  node :: table
  node_level :: table

record stages =
  monomer :: "db \<Rightarrow> real \<Rightarrow> error + table"
  scoring :: "db \<Rightarrow> int \<Rightarrow> int \<Rightarrow> int \<Rightarrow> int \<Rightarrow> error + table"
  significance :: "db \<Rightarrow> real \<Rightarrow> real \<Rightarrow> error + table"
  quantitative_matrix :: "db \<Rightarrow> error + table"
  quantitative_test :: "db \<Rightarrow> error + qt"

text \<open>A call of a stage function on the file at \<open>p\<close>: the call is logged, then it reads the file.\<close>

definition run_stage :: "stage \<Rightarrow> path \<Rightarrow> (db \<Rightarrow> error + 'a) \<Rightarrow> 'a cmd" where
  "run_stage s p f w =
     (let w' = w\<lparr>trace := trace w @ [Started s]\<rparr> in
      case read_db (files w') p of
        Inl e \<Rightarrow> (Inl e, w')
      | Inr d \<Rightarrow> (f d, w'))"

section \<open>The commands score and quantify\<close>

text \<open>\<^verbatim>\<open># Define outfile\<close>: without \<^verbatim>\<open>--out\<close> the input file is the working file; with it the input is copied there first.\<close>

definition define_outfile :: "path \<Rightarrow> path option \<Rightarrow> path cmd" where
  "define_outfile infile outfile =
     (case outfile of
        None \<Rightarrow> return_ok infile
      | Some out \<Rightarrow> and_then (copyfile infile out) (\<lambda>_. return_ok out))"

definition score ::
  "stages \<Rightarrow> path \<Rightarrow> path option \<Rightarrow> real \<Rightarrow> int \<Rightarrow> int \<Rightarrow> int \<Rightarrow> real \<Rightarrow> real \<Rightarrow> int \<Rightarrow> unit cmd" where
  "score st infile outfile complex_threshold_factor minimum_peptides maximum_peptides
         minimum_overlap minimum_mass_ratio maximum_sec_lag chunck_size =
     and_then (path_exists infile) (\<lambda>_.
     and_then (define_outfile infile outfile) (\<lambda>out.
     and_then (run_stage Monomer out (\<lambda>d. monomer st d complex_threshold_factor)) (\<lambda>monomer_data.
     and_then (to_sql out ''MONOMER'' monomer_data Replace) (\<lambda>_.
     and_then (run_stage Scoring out
                 (\<lambda>d. scoring st d chunck_size minimum_peptides maximum_peptides minimum_overlap)) (\<lambda>feature_data.
     and_then (to_sql out ''FEATURE'' feature_data Replace) (\<lambda>_.
     and_then (run_stage Significance out
                 (\<lambda>d. significance st d minimum_mass_ratio maximum_sec_lag)) (\<lambda>scored_data.
     to_sql out ''FEATURE_SCORED'' scored_data Replace)))))))"

definition quantify :: "stages \<Rightarrow> path \<Rightarrow> path option \<Rightarrow> unit cmd" where
  "quantify st infile outfile =
     and_then (path_exists infile) (\<lambda>_.
     and_then (define_outfile infile outfile) (\<lambda>out.
     and_then (run_stage QuantitativeMatrix out (quantitative_matrix st)) (\<lambda>qm_complex.
     and_then (to_sql out ''COMPLEX_QM'' qm_complex Replace) (\<lambda>_.
     and_then (run_stage QuantitativeTest out (quantitative_test st)) (\<lambda>qt.
     and_then (to_sql out ''EDGE_DIRECTIONAL'' (edge_directional qt) Replace) (\<lambda>_.
     and_then (to_sql out ''EDGE'' (edge qt) Replace) (\<lambda>_.
     and_then (to_sql out ''EDGE_LEVEL'' (edge_level qt) Replace) (\<lambda>_.
     and_then (to_sql out ''NODE'' (node qt) Replace) (\<lambda>_.
     to_sql out ''NODE_LEVEL'' (node_level qt) Replace)))))))))"

section \<open>The command export\<close>

text \<open>\<^verbatim>\<open>pd.read_sql('SELECT * FROM name;', con)\<close> on a connection to \<open>p\<close>.\<close>

definition no_such_table :: "string \<Rightarrow> error" where
  "no_such_table name = DatabaseError (''no such table: '' @ name)"

definition select_all :: "path \<Rightarrow> string \<Rightarrow> table cmd" where
  "select_all p name w =
     (case read_db (files w) p of
        Inl e \<Rightarrow> (Inl e, w)
      | Inr d \<Rightarrow>
          (case d (upper name) of
             None \<Rightarrow> (Inl (no_such_table name), w)
           | Some t \<Rightarrow> (Inr t, w)))"

text \<open>\<^verbatim>\<open>df.to_csv(p, index=False)\<close>.\<close>

definition to_csv :: "table \<Rightarrow> path \<Rightarrow> unit cmd" where
  "to_csv t p w = (Inr (), w\<lparr>files := (files w)(p \<mapsto> Csv t), trace := trace w @ [WroteCsv p]\<rparr>)"

text \<open>\<^verbatim>\<open>s.split(sep)[0]\<close> for a non-empty separator: the part of \<open>s\<close> before the first \<open>sep\<close>.\<close>

fun split_head :: "string \<Rightarrow> string \<Rightarrow> string" where
  "split_head sep [] = []"
| "split_head sep (c # cs) = (if prefix sep (c # cs) then [] else c # split_head sep cs)"

definition export :: "path \<Rightarrow> unit cmd" where
  "export infile =
     and_then (path_exists infile) (\<lambda>_.
     (let outfile_nodes = split_head ''.secat'' infile @ ''_nodes.csv'';
          outfile_nodes_level = split_head ''.secat'' infile @ ''_nodes_level.csv'';
          outfile_edges_directional = split_head ''.secat'' infile @ ''_edges_directional.csv'';
          outfile_edges = split_head ''.secat'' infile @ ''_edges.csv'';
          outfile_edges_level = split_head ''.secat'' infile @ ''_edges_level.csv''
      in
     and_then (select_all infile ''node'') (\<lambda>node_data.
     and_then (select_all infile ''node_level'') (\<lambda>node_level_data.
     and_then (select_all infile ''edge_directional'') (\<lambda>edge_directional_data.
     and_then (select_all infile ''edge'') (\<lambda>edge_data.
     and_then (select_all infile ''edge_level'') (\<lambda>edge_level_data.
     and_then (to_csv node_data outfile_nodes) (\<lambda>_.
     and_then (to_csv node_level_data outfile_nodes_level) (\<lambda>_.
     and_then (to_csv edge_directional_data outfile_edges_directional) (\<lambda>_.
     and_then (to_csv edge_data outfile_edges) (\<lambda>_.
     to_csv edge_level_data outfile_edges_level)))))))))))"

section \<open>The command preprocess\<close>

text \<open>
  The parsers \<^verbatim>\<open>uniprot\<close>, \<^verbatim>\<open>net\<close>, \<^verbatim>\<open>sec\<close>, \<^verbatim>\<open>quantification\<close> and the
  derivations \<^verbatim>\<open>meta\<close> and \<^verbatim>\<open>query\<close> are imported from a module that is not part of
  the sources at hand; they are parameters. A parser is given what the file at its path
  holds; each object stands for the frame its \<^verbatim>\<open>to_df()\<close> returns.
\<close>

record meta_data =
  peptide_meta :: table
  protein_meta :: table

record parsers =
  uniprot :: "content option \<Rightarrow> error + table"
  net :: "content option \<Rightarrow> table \<Rightarrow> real \<Rightarrow> error + table"
  sec :: "content option \<Rightarrow> string list \<Rightarrow> error + table"
  quantification :: "content option \<Rightarrow> string list \<Rightarrow> val list \<Rightarrow> error + table"
  meta :: "table \<Rightarrow> table \<Rightarrow> int \<Rightarrow> int \<Rightarrow> int \<Rightarrow> error + meta_data"
  query :: "table \<Rightarrow> table \<Rightarrow> error + table"

definition parse :: "path \<Rightarrow> (content option \<Rightarrow> error + 'a) \<Rightarrow> 'a cmd" where
  "parse p f w = (f (files w p), w)"

definition call :: "error + 'a \<Rightarrow> 'a cmd" where
  "call r w = (r, w)"

text \<open>\<^verbatim>\<open>try: os.remove(outfile) except OSError: pass\<close>, then \<^verbatim>\<open>sqlite3.connect(outfile)\<close>.\<close>

definition remove_file :: "path \<Rightarrow> unit cmd" where
  "remove_file p w = (Inr (), w\<lparr>files := (files w)(p := None)\<rparr>)"

definition connect :: "path \<Rightarrow> unit cmd" where
  "connect p w =
     (case files w p of
        None \<Rightarrow> (Inr (), w\<lparr>files := (files w)(p \<mapsto> Sqlite Map.empty)\<rparr>)
      | Some _ \<Rightarrow> (Inr (), w))"

text \<open>A cell of a row; a column the row does not hold reads as NULL.\<close>

definition cell :: "row \<Rightarrow> string \<Rightarrow> val" where
  "cell r c = (case map_of r c of None \<Rightarrow> Null | Some v \<Rightarrow> v)"

definition column :: "table \<Rightarrow> string \<Rightarrow> val list" where
  "column t c = map (\<lambda>r. cell r c) t"

text \<open>\<^verbatim>\<open>Series.unique()\<close>: the values in order of first appearance.\<close>

definition unique :: "val list \<Rightarrow> val list" where
  "unique vs = rev (remdups (rev vs))"

text \<open>
  The loop over \<^verbatim>\<open>infiles\<close>. The loop variable \<^verbatim>\<open>quantification_data\<close> is a local of
  \<^verbatim>\<open>preprocess\<close>: unbound before the first pass, and after the loop it holds the object
  of the last pass.
\<close>

fun quantification_loop ::
  "parsers \<Rightarrow> path \<Rightarrow> string list \<Rightarrow> val list \<Rightarrow> path list \<Rightarrow> table option \<Rightarrow> table option cmd" where
  "quantification_loop ps outfile columns run_ids [] quantification_data = return_ok quantification_data"
| "quantification_loop ps outfile columns run_ids (infile # infiles) quantification_data =
     and_then (parse infile (\<lambda>f. quantification ps f columns run_ids)) (\<lambda>quantification_data'.
     and_then (to_sql outfile ''QUANTIFICATION'' quantification_data' Append) (\<lambda>_.
     quantification_loop ps outfile columns run_ids infiles (Some quantification_data')))"

text \<open>
  SQL's three-valued logic, \<open>None\<close> for NULL. \<^verbatim>\<open>x NOT IN (SELECT ...)\<close> is true on an
  empty result, NULL when \<open>x\<close> is NULL, false when \<open>x\<close> is in the result, NULL when it is
  not but the result holds a NULL, and true otherwise. \<^verbatim>\<open>DELETE ... WHERE\<close> removes
  the rows whose condition is true.
\<close>

definition not_in :: "val \<Rightarrow> val list \<Rightarrow> bool option" where
  "not_in x vs =
     (if vs = [] then Some True
      else if x = Null then None
      else if x \<in> set vs then Some False
      else if Null \<in> set vs then None
      else Some True)"

definition sql_or :: "bool option \<Rightarrow> bool option \<Rightarrow> bool option" where
  "sql_or a b =
     (if a = Some True \<or> b = Some True then Some True
      else if a = Some False \<and> b = Some False then Some False
      else None)"

text \<open>\<^verbatim>\<open>SELECT DISTINCT(c) as c FROM tbl\<close> inside a statement run on database \<open>d\<close>.\<close>

definition select_distinct :: "db \<Rightarrow> string \<Rightarrow> string \<Rightarrow> error + val list" where
  "select_distinct d tbl c =
     (case d (upper tbl) of
        None \<Rightarrow> Inl (no_such_table tbl)
      | Some t \<Rightarrow> Inr (remdups (column t c)))"

text \<open>
  The statements that \<^verbatim>\<open>preprocess\<close> runs with \<^verbatim>\<open>con.execute\<close>. The \<^verbatim>\<open>sqlite3\<close>
  module opens a transaction before a \<^verbatim>\<open>DELETE\<close> and commits nothing by itself, and
  \<^verbatim>\<open>preprocess\<close> never calls \<^verbatim>\<open>con.commit()\<close>: the statements work on the connection's
  uncommitted view of the database, and the file stays as \<^verbatim>\<open>to_sql\<close> committed it. A
  statement maps the view to the new view, or raises.
\<close>

definition then_on :: "error + 'a \<Rightarrow> ('a \<Rightarrow> error + 'b) \<Rightarrow> error + 'b" where
  "then_on r f = (case r of Inl e \<Rightarrow> Inl e | Inr a \<Rightarrow> f a)"

text \<open>\<^verbatim>\<open>con.execute('DELETE FROM tbl WHERE c NOT IN (SELECT DISTINCT(qc) as qc FROM qtbl);')\<close>.\<close>

definition delete_not_in :: "db \<Rightarrow> string \<Rightarrow> string \<Rightarrow> string \<Rightarrow> string \<Rightarrow> error + db" where
  "delete_not_in d tbl c qtbl qc =
     (case d (upper tbl) of
        None \<Rightarrow> Inl (no_such_table tbl)
      | Some t \<Rightarrow>
          (case select_distinct d qtbl qc of
             Inl e \<Rightarrow> Inl e
           | Inr vs \<Rightarrow> Inr (d(upper tbl \<mapsto> filter (\<lambda>r. not_in (cell r c) vs \<noteq> Some True) t))))"

text \<open>
  \<^verbatim>\<open>con.execute('DELETE FROM tbl WHERE c1 NOT IN (SELECT DISTINCT(qc) as qc FROM qtbl)
  OR c2 NOT IN (SELECT DISTINCT(qc) as qc FROM qtbl);')\<close>.
\<close>

definition delete_not_in_or :: "db \<Rightarrow> string \<Rightarrow> string \<Rightarrow> string \<Rightarrow> string \<Rightarrow> string \<Rightarrow> error + db" where
  "delete_not_in_or d tbl c1 c2 qtbl qc =
     (case d (upper tbl) of
        None \<Rightarrow> Inl (no_such_table tbl)
      | Some t \<Rightarrow>
          (case select_distinct d qtbl qc of
             Inl e \<Rightarrow> Inl e
           | Inr vs \<Rightarrow>
               Inr (d(upper tbl \<mapsto>
                 filter (\<lambda>r. sql_or (not_in (cell r c1) vs) (not_in (cell r c2) vs) \<noteq> Some True) t))))"

text \<open>
  \<^verbatim>\<open>con.execute('CREATE INDEX IF NOT EXISTS idx ON tbl (...);')\<close>: an index changes no
  table; the statement needs the table. It runs inside the open transaction.
\<close>

definition create_index :: "db \<Rightarrow> string \<Rightarrow> error + db" where
  "create_index d tbl =
     (case d (upper tbl) of
        None \<Rightarrow> Inl (no_such_table tbl)
      | Some t \<Rightarrow> Inr d)"

fun create_indices :: "db \<Rightarrow> string list \<Rightarrow> error + db" where
  "create_indices d [] = Inr d"
| "create_indices d (tbl # tbls) = then_on (create_index d tbl) (\<lambda>d'. create_indices d' tbls)"

fun in_turn :: "unit cmd list \<Rightarrow> unit cmd" where
  "in_turn [] = return_ok ()"
| "in_turn (c # cs) = and_then c (\<lambda>_. in_turn cs)"

text \<open>\<^verbatim>\<open># Remove any entries that are not necessary (proteins not covered by LC-MS/MS data)\<close>\<close>

definition remove_unnecessary :: "db \<Rightarrow> error + db" where
  "remove_unnecessary d =
     then_on (delete_not_in d ''PROTEIN'' ''protein_id'' ''QUANTIFICATION'' ''protein_id'') (\<lambda>d.
     then_on (delete_not_in_or d ''NETWORK'' ''bait_id'' ''prey_id'' ''QUANTIFICATION'' ''protein_id'') (\<lambda>d.
     then_on (delete_not_in d ''SEC'' ''run_id'' ''QUANTIFICATION'' ''run_id'') (\<lambda>d.
     delete_not_in_or d ''QUERY'' ''bait_id'' ''prey_id'' ''QUANTIFICATION'' ''protein_id'')))"

text \<open>\<^verbatim>\<open># Add indices\<close>, one entry for each of the twelve statements.\<close>

definition add_indices :: "db \<Rightarrow> error + db" where
  "add_indices d =
     create_indices d
       [''PROTEIN'', ''NETWORK'', ''NETWORK'', ''NETWORK'',
        ''QUANTIFICATION'', ''QUANTIFICATION'', ''QUANTIFICATION'',
        ''PEPTIDE_META'', ''PROTEIN_META'', ''QUERY'', ''QUERY'', ''QUERY'']"

text \<open>
  The first \<^verbatim>\<open>DELETE\<close> begins the transaction on the committed database.
  \<^verbatim>\<open>con.execute('VACUUM;')\<close> is refused by SQLite while a transaction is open
  (\<open>pending\<close> is its uncommitted view). \<^verbatim>\<open>con.close()\<close>, like an exception that ends
  the command, drops an open transaction: the file never takes the uncommitted view.
\<close>

definition begin_transaction :: "path \<Rightarrow> db cmd" where
  "begin_transaction p w = (read_db (files w) p, w)"

definition vacuum :: "db option \<Rightarrow> unit cmd" where
  "vacuum pending =
     (case pending of
        Some d \<Rightarrow> raise (OperationalError ''cannot VACUUM from within a transaction'')
      | None \<Rightarrow> return_ok ())"

definition close_connection :: "db option \<Rightarrow> unit cmd" where
  "close_connection pending = return_ok ()"

definition preprocess ::
  "parsers \<Rightarrow> path list \<Rightarrow> path \<Rightarrow> path \<Rightarrow> path \<Rightarrow> path \<Rightarrow> string list \<Rightarrow> int \<Rightarrow> int \<Rightarrow> int \<Rightarrow> real \<Rightarrow> unit cmd" where
  "preprocess ps infiles outfile secfile netfile uniprotfile columns
              decoy_intensity_bins decoy_left_sec_bins decoy_right_sec_bins min_interaction_confidence =
     and_then (in_turn (map path_exists (infiles @ [secfile, netfile, uniprotfile]))) (\<lambda>_.
     and_then (remove_file outfile) (\<lambda>_.
     and_then (connect outfile) (\<lambda>_.
     and_then (parse uniprotfile (uniprot ps)) (\<lambda>uniprot_data.
     and_then (to_sql outfile ''PROTEIN'' uniprot_data Fail) (\<lambda>_.
     and_then (parse netfile (\<lambda>f. net ps f uniprot_data min_interaction_confidence)) (\<lambda>net_data.
     and_then (to_sql outfile ''NETWORK'' net_data Fail) (\<lambda>_.
     and_then (parse secfile (\<lambda>f. sec ps f columns)) (\<lambda>sec_data.
     and_then (to_sql outfile ''SEC'' sec_data Fail) (\<lambda>_.
     (let run_ids = unique (column sec_data ''run_id'') in
     and_then (quantification_loop ps outfile columns run_ids infiles None) (\<lambda>quantification_data.
     (case quantification_data of
        None \<Rightarrow> raise (NameError ''quantification_data'')
      | Some quantification_data \<Rightarrow>
     and_then (call (meta ps quantification_data sec_data
                       decoy_intensity_bins decoy_left_sec_bins decoy_right_sec_bins)) (\<lambda>meta_data.
     and_then (to_sql outfile ''PEPTIDE_META'' (peptide_meta meta_data) Fail) (\<lambda>_.
     and_then (to_sql outfile ''PROTEIN_META'' (protein_meta meta_data) Fail) (\<lambda>_.
     and_then (call (query ps net_data (protein_meta meta_data))) (\<lambda>query_data.
     and_then (to_sql outfile ''QUERY'' query_data Fail) (\<lambda>_.
     and_then (begin_transaction outfile) (\<lambda>committed.
     and_then (call (remove_unnecessary committed)) (\<lambda>pending.
     and_then (call (add_indices pending)) (\<lambda>pending.
     and_then (vacuum (Some pending)) (\<lambda>_.
     close_connection (Some pending))))))))))))))))))))))"

section \<open>The class plot_features\<close>

text \<open>
  The \<^verbatim>\<open>SELECT\<close> statements of \<^verbatim>\<open>plot.py\<close>, with the values formatted into them.
  SQLite refuses a statement naming a table the database does not hold; what it returns
  otherwise, and the figure matplotlib draws in \<^verbatim>\<open>generate_plot\<close>, are parameters.
\<close>

datatype statement =
    ReadFeatures
  | ReadPeptides int
  | ReadInteractionsEdge real
  | ReadInteractionsCombined real
  | ReadInteractionsDmeta
  | ReadInteractionsQmeta
  | ReadBaits real
  | ReadBaitsMeta

fun tables_of :: "statement \<Rightarrow> string list" where
  "tables_of ReadFeatures = [''FEATURE_SCORED'']"
| "tables_of (ReadPeptides peptide_rank) = [''QUANTIFICATION'', ''PROTEIN_META'', ''PEPTIDE_META'', ''SEC'', ''MONOMER'']"
| "tables_of (ReadInteractionsEdge q) = [''EDGE'']"
| "tables_of (ReadInteractionsCombined q) = [''FEATURE_SCORED_COMBINED'']"
| "tables_of ReadInteractionsDmeta = [''FEATURE_SCORED_COMBINED'', ''PROTEIN'', ''PROTEIN'']"
| "tables_of ReadInteractionsQmeta = [''EDGE'', ''EDGE_LEVEL'']"
| "tables_of (ReadBaits q) = [''NODE'']"
| "tables_of ReadBaitsMeta = [''NODE'', ''NODE_LEVEL'']"

record plot_env =
  sqlite :: "statement \<Rightarrow> db \<Rightarrow> table"
  generate_plot :: "table \<Rightarrow> table \<Rightarrow> table \<Rightarrow> table option \<Rightarrow> error + unit"

fun missing_table :: "db \<Rightarrow> string list \<Rightarrow> string option" where
  "missing_table d [] = None"
| "missing_table d (t # ts) = (if d (upper t) = None then Some t else missing_table d ts)"

text \<open>\<^verbatim>\<open>con = sqlite3.connect(self.infile); df = pd.read_sql(stmt, con); con.close()\<close>.\<close>

definition read_sql :: "plot_env \<Rightarrow> path \<Rightarrow> statement \<Rightarrow> table cmd" where
  "read_sql env p stmt w =
     (case read_db (files w) p of
        Inl e \<Rightarrow> (Inl e, w)
      | Inr d \<Rightarrow>
          (case missing_table d (tables_of stmt) of
             Some t \<Rightarrow> (Inl (no_such_table t), w)
           | None \<Rightarrow> (Inr (sqlite env stmt d), w)))"

definition check_sqlite_table :: "path \<Rightarrow> string \<Rightarrow> bool cmd" where
  "check_sqlite_table p tbl w =
     (case read_db (files w) p of
        Inl e \<Rightarrow> (Inl e, w)
      | Inr d \<Rightarrow> (Inr (d (upper tbl) \<noteq> None), w))"

definition read_features :: "plot_env \<Rightarrow> path \<Rightarrow> table cmd" where
  "read_features env infile = read_sql env infile ReadFeatures"

definition read_peptides :: "plot_env \<Rightarrow> path \<Rightarrow> int \<Rightarrow> table cmd" where
  "read_peptides env infile peptide_rank = read_sql env infile (ReadPeptides peptide_rank)"

definition read_interactions :: "plot_env \<Rightarrow> path \<Rightarrow> real \<Rightarrow> val list cmd" where
  "read_interactions env infile interaction_qvalue =
     and_then (check_sqlite_table infile ''EDGE'') (\<lambda>present.
     and_then (if present then read_sql env infile (ReadInteractionsEdge interaction_qvalue)
               else read_sql env infile (ReadInteractionsCombined interaction_qvalue)) (\<lambda>df.
     return_ok (column df ''interaction_id'')))"

definition read_interactions_dmeta :: "plot_env \<Rightarrow> path \<Rightarrow> table cmd" where
  "read_interactions_dmeta env infile = read_sql env infile ReadInteractionsDmeta"

definition read_interactions_qmeta :: "plot_env \<Rightarrow> path \<Rightarrow> table option cmd" where
  "read_interactions_qmeta env infile =
     and_then (check_sqlite_table infile ''EDGE'') (\<lambda>present.
     if present then and_then (read_sql env infile ReadInteractionsQmeta) (\<lambda>df. return_ok (Some df))
     else return_ok None)"

definition read_baits :: "plot_env \<Rightarrow> path \<Rightarrow> real \<Rightarrow> val list cmd" where
  "read_baits env infile bait_qvalue =
     and_then (read_sql env infile (ReadBaits bait_qvalue)) (\<lambda>df.
     return_ok (column df ''bait_id''))"

definition read_baits_meta :: "plot_env \<Rightarrow> path \<Rightarrow> table option cmd" where
  "read_baits_meta env infile =
     and_then (check_sqlite_table infile ''NODE'') (\<lambda>present.
     if present then and_then (read_sql env infile ReadBaitsMeta) (\<lambda>df. return_ok (Some df))
     else return_ok None)"

text \<open>\<^verbatim>\<open>os.path.splitext(os.path.basename(infile))[0]\<close>.\<close>

definition basename :: "string \<Rightarrow> string" where
  "basename p = rev (takeWhile (\<lambda>c. c \<noteq> CHR ''/'') (rev p))"

definition splitext_root :: "string \<Rightarrow> string" where
  "splitext_root s =
     (case dropWhile (\<lambda>c. c \<noteq> CHR ''.'') (rev s) of
        [] \<Rightarrow> s
      | _ # pre \<Rightarrow> if list_all (\<lambda>c. c = CHR ''.'') pre then s else rev pre)"

text \<open>
  \<^verbatim>\<open>with PdfPages(out) as pdf\<close>: the file is opened on entry; each \<^verbatim>\<open>pdf.savefig()\<close>
  adds a page.
\<close>

definition open_pdf :: "path \<Rightarrow> unit cmd" where
  "open_pdf out w = (Inr (), w\<lparr>files := (files w)(out \<mapsto> Raw [])\<rparr>)"

definition savefig :: "path \<Rightarrow> unit cmd" where
  "savefig out w = (Inr (), w\<lparr>trace := trace w @ [SavedFig out]\<rparr>)"

record plot_data =
  feature_data :: table
  peptide_data :: table
  interactions_dmeta :: table
  interactions_qmeta :: "table option"
  baits_meta :: "table option"

text \<open>An id read from a frame is joined into a file name: \<^verbatim>\<open>None\<close> there is a \<^verbatim>\<open>TypeError\<close>.\<close>

definition text_of :: "val \<Rightarrow> string cmd" where
  "text_of v = (case v of Null \<Rightarrow> raise (TypeError ''NoneType'') | Text s \<Rightarrow> return_ok s)"

definition plot_interaction :: "plot_env \<Rightarrow> path \<Rightarrow> plot_data \<Rightarrow> val \<Rightarrow> unit cmd" where
  "plot_interaction env infile self interaction_id =
     (let feature_data' = filter (\<lambda>r. cell r ''interaction_id'' = interaction_id \<and> interaction_id \<noteq> Null) (feature_data self);
          proteins = remdups (column feature_data' ''bait_id'' @ column feature_data' ''prey_id'');
          peptide_data' = filter (\<lambda>r. cell r ''protein_id'' \<in> set proteins) (peptide_data self)
      in
     and_then (text_of interaction_id) (\<lambda>id.
     (let out = splitext_root (basename infile) @ ''_'' @ id @ ''.pdf'' in
     and_then (open_pdf out) (\<lambda>_.
     and_then (call (generate_plot env peptide_data' feature_data' (interactions_dmeta self) (interactions_qmeta self))) (\<lambda>_.
     savefig out)))))"

definition plot_bait :: "plot_env \<Rightarrow> path \<Rightarrow> plot_data \<Rightarrow> val \<Rightarrow> unit cmd" where
  "plot_bait env infile self bait_id =
     (let feature_data' = filter (\<lambda>r. cell r ''bait_id'' = bait_id \<and> bait_id \<noteq> Null) (feature_data self) in
     and_then (text_of bait_id) (\<lambda>id.
     (let out = splitext_root (basename infile) @ ''_'' @ id @ ''.pdf'' in
     and_then (open_pdf out) (\<lambda>_.
     in_turn (map (\<lambda>prey_id.
        and_then (call (generate_plot env
                    (filter (\<lambda>r. (cell r ''protein_id'' = bait_id \<and> bait_id \<noteq> Null)
                                \<or> (cell r ''protein_id'' = prey_id \<and> prey_id \<noteq> Null)) (peptide_data self))
                    (filter (\<lambda>r. cell r ''prey_id'' = prey_id \<and> prey_id \<noteq> Null) feature_data')
                    (interactions_dmeta self) (interactions_qmeta self))) (\<lambda>_.
        savefig out))
       (unique (column feature_data' ''prey_id'')))))))"

definition when_given :: "'a option \<Rightarrow> ('a \<Rightarrow> unit cmd) \<Rightarrow> unit cmd" where
  "when_given x f = (case x of None \<Rightarrow> return_ok () | Some a \<Rightarrow> f a)"

text \<open>\<^verbatim>\<open>plot_features.__init__\<close>, which the command \<^verbatim>\<open>plot\<close> calls after its \<^verbatim>\<open>exists=True\<close> check.\<close>

definition plot_features ::
  "plot_env \<Rightarrow> path \<Rightarrow> string option \<Rightarrow> real option \<Rightarrow> string option \<Rightarrow> real option \<Rightarrow> int \<Rightarrow> unit cmd" where
  "plot_features env infile interaction_id interaction_qvalue bait_id bait_qvalue peptide_rank =
     and_then (read_features env infile) (\<lambda>features.
     and_then (read_peptides env infile peptide_rank) (\<lambda>peptides.
     and_then (read_interactions_dmeta env infile) (\<lambda>dmeta.
     and_then (read_interactions_qmeta env infile) (\<lambda>qmeta.
     and_then (read_baits_meta env infile) (\<lambda>bmeta.
     (let self = \<lparr>feature_data = features, peptide_data = peptides, interactions_dmeta = dmeta,
                  interactions_qmeta = qmeta, baits_meta = bmeta\<rparr> in
     and_then (when_given interaction_id (\<lambda>i. plot_interaction env infile self (Text i))) (\<lambda>_.
     and_then (when_given bait_id (\<lambda>b. plot_bait env infile self (Text b))) (\<lambda>_.
     and_then (when_given interaction_qvalue (\<lambda>q.
        and_then (read_interactions env infile q) (\<lambda>interaction_ids.
        in_turn (map (plot_interaction env infile self) interaction_ids)))) (\<lambda>_.
     when_given bait_qvalue (\<lambda>q.
        and_then (read_baits env infile q) (\<lambda>bait_ids.
        in_turn (map (plot_bait env infile self) bait_ids))))))))))))"

definition plot :: "plot_env \<Rightarrow> path \<Rightarrow> string option \<Rightarrow> real option \<Rightarrow> string option \<Rightarrow> real option \<Rightarrow> int \<Rightarrow> unit cmd" where
  "plot env infile interaction_id interaction_qvalue bait_id bait_qvalue peptide_rank =
     and_then (path_exists infile) (\<lambda>_.
     plot_features env infile interaction_id interaction_qvalue bait_id bait_qvalue peptide_rank)"

section \<open>The order of the stages, and example data\<close>

text \<open>The events of a complete run of each command on the working file, in the order the specification gives for the stages.\<close>

definition score_events :: "path \<Rightarrow> event list" where
  "score_events out =
     [Started Monomer, Wrote out ''MONOMER'',
      Started Scoring, Wrote out ''FEATURE'',
      Started Significance, Wrote out ''FEATURE_SCORED'']"

definition quantify_events :: "path \<Rightarrow> event list" where
  "quantify_events out =
     [Started QuantitativeMatrix, Wrote out ''COMPLEX_QM'',
      Started QuantitativeTest, Wrote out ''EDGE_DIRECTIONAL'', Wrote out ''EDGE'',
      Wrote out ''EDGE_LEVEL'', Wrote out ''NODE'', Wrote out ''NODE_LEVEL'']"

definition example_table :: table where
  "example_table = [[(''protein_id'', Text ''P1'')]]"

definition example_db :: db where
  "example_db = [''QUERY'' \<mapsto> [[(''bait_id'', Text ''P1''), (''prey_id'', Text ''P2'')]]]"

definition example_world :: world where
  "example_world = \<lparr>files = [''a.secat'' \<mapsto> Sqlite example_db], trace = []\<rparr>"

text \<open>A file that an earlier run of \<^verbatim>\<open>score\<close> has left with FEATURE_SCORED.\<close>

definition example_scored_db :: db where
  "example_scored_db = example_db(''FEATURE_SCORED'' \<mapsto> example_table)"

definition example_scored_world :: world where
  "example_scored_world = \<lparr>files = [''a.secat'' \<mapsto> Sqlite example_scored_db], trace = []\<rparr>"

definition example_qt :: qt where
  "example_qt = \<lparr>edge_directional = [], edge = example_table, edge_level = [], node = example_table, node_level = []\<rparr>"

text \<open>Stage functions that take any configuration, and stage functions that check the options they are given.\<close>

definition lenient_stages :: stages where
  "lenient_stages =
     \<lparr>monomer = (\<lambda>d c. Inr example_table),
      scoring = (\<lambda>d ch mn mx ov. Inr example_table),
      significance = (\<lambda>d r l. Inr example_table),
      quantitative_matrix = (\<lambda>d. Inr example_table),
      quantitative_test = (\<lambda>d. Inr example_qt)\<rparr>"

definition strict_stages :: stages where
  "strict_stages =
     \<lparr>monomer = (\<lambda>d c. Inr example_table),
      scoring = (\<lambda>d ch mn mx ov. if mx < mn then Inl (ValueError ''minimum_peptides'') else Inr example_table),
      significance = (\<lambda>d r l. if r < 0 \<or> 1 < r then Inl (ValueError ''minimum_mass_ratio'') else Inr example_table),
      quantitative_matrix = (\<lambda>d. case d ''FEATURE_SCORED'' of None \<Rightarrow> Inl (no_such_table ''FEATURE_SCORED'') | Some t \<Rightarrow> Inr t),
      quantitative_test = (\<lambda>d. case d ''COMPLEX_QM'' of None \<Rightarrow> Inl (no_such_table ''COMPLEX_QM'') | Some t \<Rightarrow> Inr example_qt)\<rparr>"


section \<open>Databases the pipeline produces\<close>

text \<open>
  The worlds reached from one without any database by running \<^verbatim>\<open>preprocess\<close>,
  \<^verbatim>\<open>score\<close> and \<^verbatim>\<open>quantify\<close> in any order, with any arguments and any imported
  functions, whether a run succeeds or raises.
\<close>

inductive produced :: "world \<Rightarrow> bool" where
  start: "\<forall>p d. files w p \<noteq> Some (Sqlite d) \<Longrightarrow> produced w"
| by_preprocess:
    "produced w \<Longrightarrow>
     produced (snd (preprocess ps infiles outfile secfile netfile uniprotfile columns
                      decoy_intensity_bins decoy_left_sec_bins decoy_right_sec_bins
                      min_interaction_confidence w))"
| by_score:
    "produced w \<Longrightarrow>
     produced (snd (score st infile outfile complex_threshold_factor minimum_peptides maximum_peptides
                      minimum_overlap minimum_mass_ratio maximum_sec_lag chunck_size w))"
| by_quantify:
    "produced w \<Longrightarrow> produced (snd (quantify st infile outfile w))"

definition no_combined :: "world \<Rightarrow> bool" where
  "no_combined w \<longleftrightarrow> (\<forall>p d. files w p = Some (Sqlite d) \<longrightarrow> d ''FEATURE_SCORED_COMBINED'' = None)"

definition keeps :: "'a cmd \<Rightarrow> bool" where
  "keeps c \<longleftrightarrow> (\<forall>w. no_combined w \<longrightarrow> no_combined (snd (c w)))"

text \<open>Example input files and imported functions for \<^verbatim>\<open>preprocess\<close>.\<close>

definition read_csv :: "content option \<Rightarrow> error + table" where
  "read_csv f = (case f of Some (Csv t) \<Rightarrow> Inr t | _ \<Rightarrow> Inl (ValueError ''unreadable''))"

definition example_parsers :: parsers where
  "example_parsers =
     \<lparr>uniprot = read_csv,
      net = (\<lambda>f uniprot_data confidence. read_csv f),
      sec = (\<lambda>f columns. read_csv f),
      quantification = (\<lambda>f columns run_ids.
         case read_csv f of
           Inl e \<Rightarrow> Inl e
         | Inr t \<Rightarrow> Inr (filter (\<lambda>r. cell r ''run_id'' \<in> set run_ids) t)),
      meta = (\<lambda>quantification_data sec_data b1 b2 b3.
         Inr \<lparr>peptide_meta = map (\<lambda>r. [(''peptide_id'', cell r ''peptide_id'')]) quantification_data,
              protein_meta = map (\<lambda>r. [(''protein_id'', cell r ''protein_id'')]) quantification_data\<rparr>),
      query = (\<lambda>net_data protein_meta. Inr net_data)\<rparr>"

definition quantification_row :: "string \<Rightarrow> val \<Rightarrow> string \<Rightarrow> row" where
  "quantification_row run protein peptide =
     [(''run_id'', Text run), (''protein_id'', protein), (''peptide_id'', Text peptide)]"

definition edge_row :: "string \<Rightarrow> string \<Rightarrow> row" where
  "edge_row bait prey = [(''bait_id'', Text bait), (''prey_id'', Text prey)]"

definition example_inputs :: world where
  "example_inputs =
     \<lparr>files =
        [''uniprot.xml'' \<mapsto> Csv [[(''protein_id'', Text ''P1'')], [(''protein_id'', Text ''P2'')], [(''protein_id'', Text ''P9'')]],
         ''net.txt'' \<mapsto> Csv [edge_row ''P1'' ''P2'', edge_row ''P1'' ''P9''],
         ''sec.csv'' \<mapsto> Csv [[(''run_id'', Text ''r1'')], [(''run_id'', Text ''r2'')]],
         ''q1.csv'' \<mapsto> Csv [quantification_row ''r1'' (Text ''P1'') ''p1a''],
         ''q2.csv'' \<mapsto> Csv [quantification_row ''r2'' (Text ''P2'') ''p2a'']],
      trace = []\<rparr>"

definition example_columns :: "string list" where
  "example_columns = [''run_id'', ''sec_id'', ''sec_mw'', ''condition_id'', ''replicate_id'', ''run_id'',
                      ''protein_id'', ''peptide_id'', ''peptide_intensity'']"

definition example_preprocess :: "path list \<Rightarrow> (error + unit) \<times> world" where
  "example_preprocess infiles =
     preprocess example_parsers infiles ''out.secat'' ''sec.csv'' ''net.txt'' ''uniprot.xml''
       example_columns 1 1 1 0 example_inputs"

text \<open>A database without EDGE_LEVEL, and a world that the three commands produce in turn.\<close>

definition export_example :: world where
  "export_example =
     \<lparr>files = [''a.secat'' \<mapsto> Sqlite [''NODE'' \<mapsto> example_table, ''NODE_LEVEL'' \<mapsto> example_table,
                                      ''EDGE_DIRECTIONAL'' \<mapsto> example_table, ''EDGE'' \<mapsto> example_table]],
      trace = []\<rparr>"

text \<open>The table of a name in the database file at a path, if there is one.\<close>

definition table_at :: "world \<Rightarrow> path \<Rightarrow> string \<Rightarrow> table option" where
  "table_at w p name = (case files w p of Some (Sqlite d) \<Rightarrow> d (upper name) | _ \<Rightarrow> None)"

definition example_pipeline :: world where
  "example_pipeline =
     snd (quantify lenient_stages ''out.secat'' None
       (snd (score lenient_stages ''out.secat'' None 2 4 4 5 0.2 2 50000
         (snd (example_preprocess [''q1.csv'', ''q2.csv''])))))"

definition example_plot_env :: plot_env where
  "example_plot_env = \<lparr>sqlite = (\<lambda>stmt d. []), generate_plot = (\<lambda>p f dm qm. Inr ())\<rparr>"

section \<open>The q-values of the Significance Assessor\<close>

text \<open>
  Modelled from the spec: the function \<^verbatim>\<open>significance\<close> and the q-value estimator it
  calls are missing from the sources at hand. The specification says: raw p-values are
  scaled into q-values, \<open>q = p \<cdot> (#tests) \<cdot> pi0 / rank\<close>, monotonized by cumulative
  minimum from the largest p-value downward. The rank of a p-value is its position, from
  1, in ascending order; the result pairs each p-value with its q-value. The numbers are
  reals.
\<close>

text \<open>Modelled from the spec: the raw q-value \<open>p \<cdot> (#tests) \<cdot> pi0 / rank\<close> (the estimator is missing).\<close>

definition raw_qvalue :: "real \<Rightarrow> nat \<Rightarrow> real \<Rightarrow> nat \<Rightarrow> real" where
  "raw_qvalue pi0 tests p rank = p * real tests * pi0 / real rank"

text \<open>
  Modelled from the spec: the cumulative minimum from the last element (the largest
  p-value) downward (the estimator is missing).
\<close>

fun cummin_down :: "real list \<Rightarrow> real list" where
  "cummin_down [] = []"
| "cummin_down (x # xs) = (case cummin_down xs of [] \<Rightarrow> [x] | m # ms \<Rightarrow> min x m # m # ms)"

text \<open>
  Modelled from the spec: the q-values of a set of p-values, each p-value paired with
  its q-value (the function \<^verbatim>\<open>significance\<close> that computes them is missing).
\<close>

definition qvalues :: "real \<Rightarrow> real list \<Rightarrow> (real \<times> real) list" where
  "qvalues pi0 pvalues =
     (let ps = sort pvalues; m = length ps
      in zip ps (cummin_down (map (\<lambda>(p, rank). raw_qvalue pi0 m p rank) (zip ps (map Suc [0..<m])))))"

section \<open>Properties of score and quantify\<close>

lemma upper_names [simp]:
  "upper ''MONOMER'' = ''MONOMER''" "upper ''FEATURE'' = ''FEATURE''"
  "upper ''FEATURE_SCORED'' = ''FEATURE_SCORED''" "upper ''COMPLEX_QM'' = ''COMPLEX_QM''"
  "upper ''EDGE_DIRECTIONAL'' = ''EDGE_DIRECTIONAL''" "upper ''EDGE'' = ''EDGE''"
  "upper ''EDGE_LEVEL'' = ''EDGE_LEVEL''" "upper ''NODE'' = ''NODE''"
  "upper ''NODE_LEVEL'' = ''NODE_LEVEL''"
  by (simp_all add: upper_def toupper_def)

lemma and_then_Inl: "m w = (Inl e, w') \<Longrightarrow> and_then m f w = (Inl e, w')"
  by (simp add: and_then_def)

lemma and_then_Inr: "m w = (Inr a, w') \<Longrightarrow> and_then m f w = f a w'"
  by (simp add: and_then_def)

lemma read_db_written [simp]: "read_db (f(p \<mapsto> Sqlite d)) p = Inr d"
  by (simp add: read_db_def)

lemma run_stage_eq:
  "read_db (files w) p = Inr d \<Longrightarrow> run_stage s p f w = (f d, w\<lparr>trace := trace w @ [Started s]\<rparr>)"
  by (simp add: run_stage_def Let_def)

lemma to_sql_replace_eq:
  "read_db (files w) p = Inr d \<Longrightarrow>
   to_sql p name t Replace w =
     (Inr (), w\<lparr>files := (files w)(p \<mapsto> Sqlite (d(upper name \<mapsto> t))), trace := trace w @ [Wrote p (upper name)]\<rparr>)"
  by (simp add: to_sql_def write_table_def)

lemma path_exists_eq: "files w p \<noteq> None \<Longrightarrow> path_exists p w = (Inr (), w)"
  by (auto simp: path_exists_def)

lemmas run_simps = and_then_Inr and_then_Inl path_exists_eq run_stage_eq to_sql_replace_eq

lemma score_monomer_raises:
  assumes "files w infile \<noteq> None"
      and "define_outfile infile outfile w = (Inr out, w1)"
      and "read_db (files w1) out = Inr d0"
      and "monomer st d0 ctf = Inl e"
  shows "fst (score st infile outfile ctf minp maxp mino mmr lag ch w) = Inl e"
    and "files (snd (score st infile outfile ctf minp maxp mino mmr lag ch w)) = files w1"
    and "trace (snd (score st infile outfile ctf minp maxp mino mmr lag ch w)) = trace w1 @ take 1 (score_events out)"
  using assms by (simp_all add: score_def run_simps score_events_def)

lemma score_scoring_raises:
  assumes "files w infile \<noteq> None"
      and "define_outfile infile outfile w = (Inr out, w1)"
      and "read_db (files w1) out = Inr d0"
      and "monomer st d0 ctf = Inr m"
      and "scoring st (d0(''MONOMER'' \<mapsto> m)) ch minp maxp mino = Inl e"
  shows "fst (score st infile outfile ctf minp maxp mino mmr lag ch w) = Inl e"
    and "files (snd (score st infile outfile ctf minp maxp mino mmr lag ch w)) =
           (files w1)(out \<mapsto> Sqlite (d0(''MONOMER'' \<mapsto> m)))"
    and "trace (snd (score st infile outfile ctf minp maxp mino mmr lag ch w)) = trace w1 @ take 3 (score_events out)"
  using assms by (simp_all add: score_def run_simps score_events_def)

lemma score_significance_raises:
  assumes "files w infile \<noteq> None"
      and "define_outfile infile outfile w = (Inr out, w1)"
      and "read_db (files w1) out = Inr d0"
      and "monomer st d0 ctf = Inr m"
      and "scoring st (d0(''MONOMER'' \<mapsto> m)) ch minp maxp mino = Inr f"
      and "significance st (d0(''MONOMER'' \<mapsto> m, ''FEATURE'' \<mapsto> f)) mmr lag = Inl e"
  shows "fst (score st infile outfile ctf minp maxp mino mmr lag ch w) = Inl e"
    and "files (snd (score st infile outfile ctf minp maxp mino mmr lag ch w)) =
           (files w1)(out \<mapsto> Sqlite (d0(''MONOMER'' \<mapsto> m, ''FEATURE'' \<mapsto> f)))"
    and "trace (snd (score st infile outfile ctf minp maxp mino mmr lag ch w)) = trace w1 @ take 5 (score_events out)"
  using assms by (simp_all add: score_def run_simps score_events_def)

lemma score_completes:
  assumes "files w infile \<noteq> None"
      and "define_outfile infile outfile w = (Inr out, w1)"
      and "read_db (files w1) out = Inr d0"
      and "monomer st d0 ctf = Inr m"
      and "scoring st (d0(''MONOMER'' \<mapsto> m)) ch minp maxp mino = Inr f"
      and "significance st (d0(''MONOMER'' \<mapsto> m, ''FEATURE'' \<mapsto> f)) mmr lag = Inr s"
  shows "fst (score st infile outfile ctf minp maxp mino mmr lag ch w) = Inr ()"
    and "files (snd (score st infile outfile ctf minp maxp mino mmr lag ch w)) =
           (files w1)(out \<mapsto> Sqlite (d0(''MONOMER'' \<mapsto> m, ''FEATURE'' \<mapsto> f, ''FEATURE_SCORED'' \<mapsto> s)))"
    and "trace (snd (score st infile outfile ctf minp maxp mino mmr lag ch w)) = trace w1 @ score_events out"
  using assms by (simp_all add: score_def run_simps score_events_def)

lemma quantify_matrix_raises:
  assumes "files w infile \<noteq> None"
      and "define_outfile infile outfile w = (Inr out, w1)"
      and "read_db (files w1) out = Inr d0"
      and "quantitative_matrix st d0 = Inl e"
  shows "fst (quantify st infile outfile w) = Inl e"
    and "files (snd (quantify st infile outfile w)) = files w1"
    and "trace (snd (quantify st infile outfile w)) = trace w1 @ take 1 (quantify_events out)"
  using assms by (simp_all add: quantify_def run_simps quantify_events_def)

lemma quantify_test_raises:
  assumes "files w infile \<noteq> None"
      and "define_outfile infile outfile w = (Inr out, w1)"
      and "read_db (files w1) out = Inr d0"
      and "quantitative_matrix st d0 = Inr c"
      and "quantitative_test st (d0(''COMPLEX_QM'' \<mapsto> c)) = Inl e"
  shows "fst (quantify st infile outfile w) = Inl e"
    and "files (snd (quantify st infile outfile w)) = (files w1)(out \<mapsto> Sqlite (d0(''COMPLEX_QM'' \<mapsto> c)))"
    and "trace (snd (quantify st infile outfile w)) = trace w1 @ take 3 (quantify_events out)"
  using assms by (simp_all add: quantify_def run_simps quantify_events_def)

lemma quantify_completes:
  assumes "files w infile \<noteq> None"
      and "define_outfile infile outfile w = (Inr out, w1)"
      and "read_db (files w1) out = Inr d0"
      and "quantitative_matrix st d0 = Inr c"
      and "quantitative_test st (d0(''COMPLEX_QM'' \<mapsto> c)) = Inr t"
  shows "fst (quantify st infile outfile w) = Inr ()"
    and "files (snd (quantify st infile outfile w)) =
           (files w1)(out \<mapsto> Sqlite (d0(''COMPLEX_QM'' \<mapsto> c, ''EDGE_DIRECTIONAL'' \<mapsto> edge_directional t,
              ''EDGE'' \<mapsto> edge t, ''EDGE_LEVEL'' \<mapsto> edge_level t, ''NODE'' \<mapsto> node t,
              ''NODE_LEVEL'' \<mapsto> node_level t)))"
    and "trace (snd (quantify st infile outfile w)) = trace w1 @ quantify_events out"
  using assms by (simp_all add: quantify_def run_simps quantify_events_def)

lemma define_outfile_None: "define_outfile infile None w = (Inr infile, w)"
  by (simp add: define_outfile_def return_ok_def)

lemma define_outfile_Some:
  "out \<noteq> infile \<Longrightarrow> files w infile = Some c \<Longrightarrow>
   define_outfile infile (Some out) w =
     (Inr out, w\<lparr>files := (files w)(out \<mapsto> c), trace := trace w @ [Copied infile out]\<rparr>)"
  by (simp add: define_outfile_def copyfile_def and_then_def return_ok_def)

text \<open>
  C2: when the computation of a stage raises, its output table is not written: the command
  ends with that exception and the files are as they were when the stage began (in
  particular the working file holds the tables of the stages before it, complete). When
  the computations return, all tables of the stage are written. This holds for the
  three stages of \<^verbatim>\<open>score\<close> and the two of \<^verbatim>\<open>quantify\<close>; \<open>w1\<close> is the world once
  the working file is defined, \<open>d0\<close> the database found there.
\<close>

theorem stage_raises_store_kept:
  assumes "files w infile \<noteq> None"
      and "define_outfile infile outfile w = (Inr out, w1)"
      and "read_db (files w1) out = Inr d0"
  shows
    "(monomer st d0 ctf = Inl e \<longrightarrow>
        fst (score st infile outfile ctf minp maxp mino mmr lag ch w) = Inl e \<and>
        files (snd (score st infile outfile ctf minp maxp mino mmr lag ch w)) = files w1) \<and>
     (monomer st d0 ctf = Inr m \<and> scoring st (d0(''MONOMER'' \<mapsto> m)) ch minp maxp mino = Inl e \<longrightarrow>
        fst (score st infile outfile ctf minp maxp mino mmr lag ch w) = Inl e \<and>
        files (snd (score st infile outfile ctf minp maxp mino mmr lag ch w)) =
          (files w1)(out \<mapsto> Sqlite (d0(''MONOMER'' \<mapsto> m)))) \<and>
     (monomer st d0 ctf = Inr m \<and> scoring st (d0(''MONOMER'' \<mapsto> m)) ch minp maxp mino = Inr f \<and>
      significance st (d0(''MONOMER'' \<mapsto> m, ''FEATURE'' \<mapsto> f)) mmr lag = Inl e \<longrightarrow>
        fst (score st infile outfile ctf minp maxp mino mmr lag ch w) = Inl e \<and>
        files (snd (score st infile outfile ctf minp maxp mino mmr lag ch w)) =
          (files w1)(out \<mapsto> Sqlite (d0(''MONOMER'' \<mapsto> m, ''FEATURE'' \<mapsto> f)))) \<and>
     (monomer st d0 ctf = Inr m \<and> scoring st (d0(''MONOMER'' \<mapsto> m)) ch minp maxp mino = Inr f \<and>
      significance st (d0(''MONOMER'' \<mapsto> m, ''FEATURE'' \<mapsto> f)) mmr lag = Inr s \<longrightarrow>
        fst (score st infile outfile ctf minp maxp mino mmr lag ch w) = Inr () \<and>
        files (snd (score st infile outfile ctf minp maxp mino mmr lag ch w)) =
          (files w1)(out \<mapsto> Sqlite (d0(''MONOMER'' \<mapsto> m, ''FEATURE'' \<mapsto> f, ''FEATURE_SCORED'' \<mapsto> s)))) \<and>
     (quantitative_matrix st d0 = Inl e \<longrightarrow>
        fst (quantify st infile outfile w) = Inl e \<and>
        files (snd (quantify st infile outfile w)) = files w1) \<and>
     (quantitative_matrix st d0 = Inr c \<and> quantitative_test st (d0(''COMPLEX_QM'' \<mapsto> c)) = Inl e \<longrightarrow>
        fst (quantify st infile outfile w) = Inl e \<and>
        files (snd (quantify st infile outfile w)) = (files w1)(out \<mapsto> Sqlite (d0(''COMPLEX_QM'' \<mapsto> c)))) \<and>
     (quantitative_matrix st d0 = Inr c \<and> quantitative_test st (d0(''COMPLEX_QM'' \<mapsto> c)) = Inr t \<longrightarrow>
        fst (quantify st infile outfile w) = Inr () \<and>
        files (snd (quantify st infile outfile w)) =
          (files w1)(out \<mapsto> Sqlite (d0(''COMPLEX_QM'' \<mapsto> c, ''EDGE_DIRECTIONAL'' \<mapsto> edge_directional t,
             ''EDGE'' \<mapsto> edge t, ''EDGE_LEVEL'' \<mapsto> edge_level t, ''NODE'' \<mapsto> node t,
             ''NODE_LEVEL'' \<mapsto> node_level t))))"
  by (intro conjI impI; (elim conjE)?;
      simp add: score_monomer_raises [OF assms] score_scoring_raises [OF assms]
        score_significance_raises [OF assms] score_completes [OF assms]
        quantify_matrix_raises [OF assms] quantify_test_raises [OF assms]
        quantify_completes [OF assms])

lemma example_world_simps:
  "files example_world ''a.secat'' = Some (Sqlite example_db)"
  "trace example_world = []"
  "read_db (files example_world) ''a.secat'' = Inr example_db"
  by (simp_all add: example_world_def read_db_def)

theorem stage_raises_store_kept_witness:
  "fst (score strict_stages ''a.secat'' None 2 5 4 5 0.2 2 50000 example_world) = Inl (ValueError ''minimum_peptides'') \<and>
   files (snd (score strict_stages ''a.secat'' None 2 5 4 5 0.2 2 50000 example_world)) =
     (files example_world)(''a.secat'' \<mapsto> Sqlite (example_db(''MONOMER'' \<mapsto> example_table))) \<and>
   fst (quantify strict_stages ''a.secat'' None example_world) = Inl (no_such_table ''FEATURE_SCORED'') \<and>
   files (snd (quantify strict_stages ''a.secat'' None example_world)) = files example_world"
  using stage_raises_store_kept [of example_world "''a.secat''" None "''a.secat''" example_world example_db
          strict_stages 2 "ValueError ''minimum_peptides''" 5 4 5 "0.2" 2 50000 example_table]
        stage_raises_store_kept [of example_world "''a.secat''" None "''a.secat''" example_world example_db
          strict_stages 2 "no_such_table ''FEATURE_SCORED''" 5 4 5 "0.2" 2 50000 example_table]
  by (simp add: example_world_simps define_outfile_None strict_stages_def example_db_def)

lemma score_trace_prefix:
  assumes "files w infile \<noteq> None"
      and "define_outfile infile outfile w = (Inr out, w1)"
      and "read_db (files w1) out = Inr d0"
  shows "\<exists>k\<ge>1. trace (snd (score st infile outfile ctf minp maxp mino mmr lag ch w)) = trace w1 @ take k (score_events out)"
proof (cases "monomer st d0 ctf")
  case (Inl e)
  from score_monomer_raises(3) [OF assms this] show ?thesis by (intro exI [of _ 1]) simp
next
  case m: (Inr m)
  show ?thesis
  proof (cases "scoring st (d0(''MONOMER'' \<mapsto> m)) ch minp maxp mino")
    case (Inl e)
    from score_scoring_raises(3) [OF assms m this] show ?thesis by (intro exI [of _ 3]) simp
  next
    case f: (Inr f)
    show ?thesis
    proof (cases "significance st (d0(''MONOMER'' \<mapsto> m, ''FEATURE'' \<mapsto> f)) mmr lag")
      case (Inl e)
      from score_significance_raises(3) [OF assms m f this] show ?thesis by (intro exI [of _ 5]) simp
    next
      case (Inr s)
      from score_completes(3) [OF assms m f this] show ?thesis by (intro exI [of _ 6]) (simp add: score_events_def)
    qed
  qed
qed

lemma score_succeeds_trace:
  assumes "files w infile \<noteq> None"
      and "define_outfile infile outfile w = (Inr out, w1)"
      and "read_db (files w1) out = Inr d0"
      and ok: "fst (score st infile outfile ctf minp maxp mino mmr lag ch w) = Inr ()"
  shows "trace (snd (score st infile outfile ctf minp maxp mino mmr lag ch w)) = trace w1 @ score_events out"
proof (cases "monomer st d0 ctf")
  case (Inl e)
  from score_monomer_raises(1) [OF assms(1-3) this] ok show ?thesis by simp
next
  case m: (Inr m)
  show ?thesis
  proof (cases "scoring st (d0(''MONOMER'' \<mapsto> m)) ch minp maxp mino")
    case (Inl e)
    from score_scoring_raises(1) [OF assms(1-3) m this] ok show ?thesis by simp
  next
    case f: (Inr f)
    show ?thesis
    proof (cases "significance st (d0(''MONOMER'' \<mapsto> m, ''FEATURE'' \<mapsto> f)) mmr lag")
      case (Inl e)
      from score_significance_raises(1) [OF assms(1-3) m f this] ok show ?thesis by simp
    next
      case (Inr s)
      from score_completes(3) [OF assms(1-3) m f this] show ?thesis .
    qed
  qed
qed

lemma quantify_trace_prefix:
  assumes "files w infile \<noteq> None"
      and "define_outfile infile outfile w = (Inr out, w1)"
      and "read_db (files w1) out = Inr d0"
  shows "\<exists>k\<ge>1. trace (snd (quantify st infile outfile w)) = trace w1 @ take k (quantify_events out)"
proof (cases "quantitative_matrix st d0")
  case (Inl e)
  from quantify_matrix_raises(3) [OF assms this] show ?thesis by (intro exI [of _ 1]) simp
next
  case c: (Inr c)
  show ?thesis
  proof (cases "quantitative_test st (d0(''COMPLEX_QM'' \<mapsto> c))")
    case (Inl e)
    from quantify_test_raises(3) [OF assms c this] show ?thesis by (intro exI [of _ 3]) simp
  next
    case (Inr t)
    from quantify_completes(3) [OF assms c this] show ?thesis by (intro exI [of _ 8]) (simp add: quantify_events_def)
  qed
qed

lemma quantify_succeeds_trace:
  assumes "files w infile \<noteq> None"
      and "define_outfile infile outfile w = (Inr out, w1)"
      and "read_db (files w1) out = Inr d0"
      and ok: "fst (quantify st infile outfile w) = Inr ()"
  shows "trace (snd (quantify st infile outfile w)) = trace w1 @ quantify_events out"
proof (cases "quantitative_matrix st d0")
  case (Inl e)
  from quantify_matrix_raises(1) [OF assms(1-3) this] ok show ?thesis by simp
next
  case c: (Inr c)
  show ?thesis
  proof (cases "quantitative_test st (d0(''COMPLEX_QM'' \<mapsto> c))")
    case (Inl e)
    from quantify_test_raises(1) [OF assms(1-3) c this] ok show ?thesis by simp
  next
    case (Inr t)
    from quantify_completes(3) [OF assms(1-3) c this] show ?thesis .
  qed
qed

lemma and_then_okD:
  assumes "fst (and_then m f w) = Inr b"
  shows "\<exists>a w'. m w = (Inr a, w') \<and> fst (f a w') = Inr b"
  using assms by (cases "m w") (auto simp: and_then_def split: sum.splits)





lemma score_succeeds:
  assumes "files w infile \<noteq> None"
      and "define_outfile infile outfile w = (Inr out, w1)"
      and "read_db (files w1) out = Inr d0"
      and ok: "fst (score st infile outfile ctf minp maxp mino mmr lag ch w) = Inr ()"
  obtains m f s where "monomer st d0 ctf = Inr m"
      and "scoring st (d0(''MONOMER'' \<mapsto> m)) ch minp maxp mino = Inr f"
      and "significance st (d0(''MONOMER'' \<mapsto> m, ''FEATURE'' \<mapsto> f)) mmr lag = Inr s"
proof (cases "monomer st d0 ctf")
  case (Inl e)
  from score_monomer_raises(1) [OF assms(1-3) this] ok show ?thesis by simp
next
  case m: (Inr m)
  show ?thesis
  proof (cases "scoring st (d0(''MONOMER'' \<mapsto> m)) ch minp maxp mino")
    case (Inl e)
    from score_scoring_raises(1) [OF assms(1-3) m this] ok show ?thesis by simp
  next
    case f: (Inr f)
    show ?thesis
    proof (cases "significance st (d0(''MONOMER'' \<mapsto> m, ''FEATURE'' \<mapsto> f)) mmr lag")
      case (Inl e)
      from score_significance_raises(1) [OF assms(1-3) m f this] ok show ?thesis by simp
    next
      case (Inr s)
      with m f that show ?thesis by blast
    qed
  qed
qed

lemma quantify_succeeds:
  assumes "files w infile \<noteq> None"
      and "define_outfile infile outfile w = (Inr out, w1)"
      and "read_db (files w1) out = Inr d0"
      and ok: "fst (quantify st infile outfile w) = Inr ()"
  obtains c t where "quantitative_matrix st d0 = Inr c"
      and "quantitative_test st (d0(''COMPLEX_QM'' \<mapsto> c)) = Inr t"
proof (cases "quantitative_matrix st d0")
  case (Inl e)
  from quantify_matrix_raises(1) [OF assms(1-3) this] ok show ?thesis by simp
next
  case c: (Inr c)
  show ?thesis
  proof (cases "quantitative_test st (d0(''COMPLEX_QM'' \<mapsto> c))")
    case (Inl e)
    from quantify_test_raises(1) [OF assms(1-3) c this] ok show ?thesis by simp
  next
    case (Inr t)
    with c that show ?thesis by blast
  qed
qed

lemma score_files:
  assumes "files w infile \<noteq> None"
      and "define_outfile infile outfile w = (Inr out, w1)"
      and "read_db (files w1) out = Inr d0"
      and here: "files w1 out = Some (Sqlite d0)"
  shows "\<exists>D. files (snd (score st infile outfile ctf minp maxp mino mmr lag ch w)) = (files w1)(out \<mapsto> Sqlite D) \<and>
             (\<forall>t. t \<notin> {''MONOMER'', ''FEATURE'', ''FEATURE_SCORED''} \<longrightarrow> D t = d0 t) \<and> dom d0 \<subseteq> dom D"
proof (cases "monomer st d0 ctf")
  case (Inl e)
  from score_monomer_raises(2) [OF assms(1-3) this] here show ?thesis
    by (intro exI [of _ d0]) (auto simp: fun_upd_idem)
next
  case m: (Inr m)
  show ?thesis
  proof (cases "scoring st (d0(''MONOMER'' \<mapsto> m)) ch minp maxp mino")
    case (Inl e)
    from score_scoring_raises(2) [OF assms(1-3) m this] show ?thesis
      by (intro exI [of _ "d0(''MONOMER'' \<mapsto> m)"]) auto
  next
    case f: (Inr f)
    show ?thesis
    proof (cases "significance st (d0(''MONOMER'' \<mapsto> m, ''FEATURE'' \<mapsto> f)) mmr lag")
      case (Inl e)
      from score_significance_raises(2) [OF assms(1-3) m f this] show ?thesis
        by (intro exI [of _ "d0(''MONOMER'' \<mapsto> m, ''FEATURE'' \<mapsto> f)"]) auto
    next
      case (Inr s)
      from score_completes(2) [OF assms(1-3) m f this] show ?thesis
        by (intro exI [of _ "d0(''MONOMER'' \<mapsto> m, ''FEATURE'' \<mapsto> f, ''FEATURE_SCORED'' \<mapsto> s)"]) auto
    qed
  qed
qed

lemma quantify_files:
  assumes "files w infile \<noteq> None"
      and "define_outfile infile outfile w = (Inr out, w1)"
      and "read_db (files w1) out = Inr d0"
      and here: "files w1 out = Some (Sqlite d0)"
  shows "\<exists>D. files (snd (quantify st infile outfile w)) = (files w1)(out \<mapsto> Sqlite D) \<and>
             (\<forall>t. t \<notin> {''COMPLEX_QM'', ''EDGE_DIRECTIONAL'', ''EDGE'', ''EDGE_LEVEL'', ''NODE'', ''NODE_LEVEL''}
                  \<longrightarrow> D t = d0 t) \<and> dom d0 \<subseteq> dom D"
proof (cases "quantitative_matrix st d0")
  case (Inl e)
  from quantify_matrix_raises(2) [OF assms(1-3) this] here show ?thesis
    by (intro exI [of _ d0]) (auto simp: fun_upd_idem)
next
  case c: (Inr c)
  show ?thesis
  proof (cases "quantitative_test st (d0(''COMPLEX_QM'' \<mapsto> c))")
    case (Inl e)
    from quantify_test_raises(2) [OF assms(1-3) c this] show ?thesis
      by (intro exI [of _ "d0(''COMPLEX_QM'' \<mapsto> c)"]) auto
  next
    case (Inr t)
    from quantify_completes(2) [OF assms(1-3) c this] show ?thesis
      by (intro exI [of _ "d0(''COMPLEX_QM'' \<mapsto> c, ''EDGE_DIRECTIONAL'' \<mapsto> edge_directional t,
              ''EDGE'' \<mapsto> edge t, ''EDGE_LEVEL'' \<mapsto> edge_level t, ''NODE'' \<mapsto> node t,
              ''NODE_LEVEL'' \<mapsto> node_level t)"]) auto
  qed
qed

lemma define_outfile_SomeE:
  assumes "out \<noteq> infile" and "files w infile = Some c"
  obtains w1 where "define_outfile infile (Some out) w = (Inr out, w1)"
    and "files w1 = (files w)(out \<mapsto> c)"
    and "trace w1 = trace w @ [Copied infile out]"
  using define_outfile_Some [OF assms]
        that [of "w\<lparr>files := (files w)(out \<mapsto> c), trace := trace w @ [Copied infile out]\<rparr>"]
  by simp

text \<open>
  C10: \<^verbatim>\<open>score\<close> and \<^verbatim>\<open>quantify\<close> with \<^verbatim>\<open>--out\<close> different from the input, on an input
  database \<open>d\<close>: the input file is copied to the output path before any stage runs, the
  input file and every file other than the output are unchanged, and the output file
  holds every table of the input; outside the tables the stages write it holds them
  unchanged. This holds whether the command succeeds or a stage raises.
\<close>

theorem out_copy_keeps_input:
  assumes ne: "out \<noteq> infile"
      and db: "files w infile = Some (Sqlite d)"
  shows
    "files (snd (score st infile (Some out) ctf minp maxp mino mmr lag ch w)) infile = Some (Sqlite d) \<and>
     (\<forall>q. q \<noteq> out \<longrightarrow> files (snd (score st infile (Some out) ctf minp maxp mino mmr lag ch w)) q = files w q) \<and>
     (\<exists>d'. files (snd (score st infile (Some out) ctf minp maxp mino mmr lag ch w)) out = Some (Sqlite d') \<and>
           dom d \<subseteq> dom d' \<and> (\<forall>t. t \<notin> {''MONOMER'', ''FEATURE'', ''FEATURE_SCORED''} \<longrightarrow> d' t = d t)) \<and>
     (\<exists>k\<ge>1. trace (snd (score st infile (Some out) ctf minp maxp mino mmr lag ch w)) =
               trace w @ Copied infile out # take k (score_events out)) \<and>
     files (snd (quantify st infile (Some out) w)) infile = Some (Sqlite d) \<and>
     (\<forall>q. q \<noteq> out \<longrightarrow> files (snd (quantify st infile (Some out) w)) q = files w q) \<and>
     (\<exists>d'. files (snd (quantify st infile (Some out) w)) out = Some (Sqlite d') \<and>
           dom d \<subseteq> dom d' \<and>
           (\<forall>t. t \<notin> {''COMPLEX_QM'', ''EDGE_DIRECTIONAL'', ''EDGE'', ''EDGE_LEVEL'', ''NODE'', ''NODE_LEVEL''}
                \<longrightarrow> d' t = d t)) \<and>
     (\<exists>k\<ge>1. trace (snd (quantify st infile (Some out) w)) =
               trace w @ Copied infile out # take k (quantify_events out))"
proof -
  from define_outfile_SomeE [OF ne db]
  obtain w1 where outf: "define_outfile infile (Some out) w = (Inr out, w1)"
    and fw1: "files w1 = (files w)(out \<mapsto> Sqlite d)"
    and tw1: "trace w1 = trace w @ [Copied infile out]"
    by blast
  have ex: "files w infile \<noteq> None" using db by simp
  have rd: "read_db (files w1) out = Inr d" by (simp add: fw1)
  have here: "files w1 out = Some (Sqlite d)" by (simp add: fw1)
  from score_files [OF ex outf rd here]
  obtain D where D: "files (snd (score st infile (Some out) ctf minp maxp mino mmr lag ch w)) = (files w1)(out \<mapsto> Sqlite D)"
    "\<forall>t. t \<notin> {''MONOMER'', ''FEATURE'', ''FEATURE_SCORED''} \<longrightarrow> D t = d t" "dom d \<subseteq> dom D"
    by meson
  from quantify_files [OF ex outf rd here]
  obtain E where E: "files (snd (quantify st infile (Some out) w)) = (files w1)(out \<mapsto> Sqlite E)"
    "\<forall>t. t \<notin> {''COMPLEX_QM'', ''EDGE_DIRECTIONAL'', ''EDGE'', ''EDGE_LEVEL'', ''NODE'', ''NODE_LEVEL''} \<longrightarrow> E t = d t"
    "dom d \<subseteq> dom E"
    by meson
  from score_trace_prefix [OF ex outf rd]
  have ts: "\<exists>k\<ge>1. trace (snd (score st infile (Some out) ctf minp maxp mino mmr lag ch w)) =
               trace w @ Copied infile out # take k (score_events out)" by (simp add: tw1)
  from quantify_trace_prefix [OF ex outf rd]
  have tq: "\<exists>k\<ge>1. trace (snd (quantify st infile (Some out) w)) =
               trace w @ Copied infile out # take k (quantify_events out)" by (simp add: tw1)
  have f1: "files (snd (score st infile (Some out) ctf minp maxp mino mmr lag ch w)) infile = Some (Sqlite d)"
    using ne db by (simp add: D(1) fw1)
  have f2: "\<forall>q. q \<noteq> out \<longrightarrow> files (snd (score st infile (Some out) ctf minp maxp mino mmr lag ch w)) q = files w q"
    by (simp add: D(1) fw1)
  have f3: "\<exists>d'. files (snd (score st infile (Some out) ctf minp maxp mino mmr lag ch w)) out = Some (Sqlite d') \<and>
           dom d \<subseteq> dom d' \<and> (\<forall>t. t \<notin> {''MONOMER'', ''FEATURE'', ''FEATURE_SCORED''} \<longrightarrow> d' t = d t)"
    using D(2,3) by (intro exI [of _ D]) (simp add: D(1))
  have g1: "files (snd (quantify st infile (Some out) w)) infile = Some (Sqlite d)"
    using ne db by (simp add: E(1) fw1)
  have g2: "\<forall>q. q \<noteq> out \<longrightarrow> files (snd (quantify st infile (Some out) w)) q = files w q"
    by (simp add: E(1) fw1)
  have g3: "\<exists>d'. files (snd (quantify st infile (Some out) w)) out = Some (Sqlite d') \<and>
           dom d \<subseteq> dom d' \<and>
           (\<forall>t. t \<notin> {''COMPLEX_QM'', ''EDGE_DIRECTIONAL'', ''EDGE'', ''EDGE_LEVEL'', ''NODE'', ''NODE_LEVEL''}
                \<longrightarrow> d' t = d t)"
    using E(2,3) by (intro exI [of _ E]) (simp add: E(1))
  show ?thesis
    apply (intro conjI)
    apply (rule f1) apply (rule f2) apply (rule f3) apply (rule ts)
    apply (rule g1) apply (rule g2) apply (rule g3) apply (rule tq)
    done
qed


theorem out_copy_keeps_input_witness:
  "files (snd (score lenient_stages ''a.secat'' (Some ''b.secat'') 2 4 4 5 0.2 2 50000 example_world)) ''a.secat''
     = Some (Sqlite example_db) \<and>
   (\<exists>d'. files (snd (score lenient_stages ''a.secat'' (Some ''b.secat'') 2 4 4 5 0.2 2 50000 example_world)) ''b.secat''
     = Some (Sqlite d') \<and> dom example_db \<subseteq> dom d')"
proof -
  have "''b.secat'' \<noteq> ''a.secat''" by simp
  from out_copy_keeps_input [OF this example_world_simps(1), of lenient_stages 2 4 4 5 "0.2" 2 50000]
  show ?thesis by meson
qed

text \<open>
  C3, as amended: \<^verbatim>\<open>score\<close> checks no option before it starts processing. For every
  configuration, also one with \<^verbatim>\<open>minimum_peptides > maximum_peptides\<close> or
  \<^verbatim>\<open>minimum_mass_ratio\<close> outside [0,1], once the input file exists and the working
  file is defined, monomer detection is the next event, and when it returns, MONOMER is
  written to the working file whatever the later stages do. The peptide bounds reach
  only \<^verbatim>\<open>scoring\<close>, the mass ratio only \<^verbatim>\<open>significance\<close>.
\<close>

theorem score_checks_no_configuration:
  assumes "files w infile \<noteq> None"
      and "define_outfile infile outfile w = (Inr out, w1)"
      and "read_db (files w1) out = Inr d0"
  shows
    "(\<exists>rest. trace (snd (score st infile outfile ctf minp maxp mino mmr lag ch w)) =
               trace w1 @ Started Monomer # rest) \<and>
     (monomer st d0 ctf = Inr m \<longrightarrow>
        (\<exists>d'. read_db (files (snd (score st infile outfile ctf minp maxp mino mmr lag ch w))) out = Inr d' \<and>
              d' ''MONOMER'' = Some m))"
proof (intro conjI impI)
  from score_trace_prefix [OF assms, of st ctf minp maxp mino mmr lag ch]
  obtain k where "1 \<le> k"
    and "trace (snd (score st infile outfile ctf minp maxp mino mmr lag ch w)) = trace w1 @ take k (score_events out)"
    by blast
  then show "\<exists>rest. trace (snd (score st infile outfile ctf minp maxp mino mmr lag ch w)) =
               trace w1 @ Started Monomer # rest"
    by (cases k) (simp_all add: score_events_def)
next
  assume m: "monomer st d0 ctf = Inr m"
  show "\<exists>d'. read_db (files (snd (score st infile outfile ctf minp maxp mino mmr lag ch w))) out = Inr d' \<and>
              d' ''MONOMER'' = Some m"
  proof (cases "scoring st (d0(''MONOMER'' \<mapsto> m)) ch minp maxp mino")
    case (Inl e)
    from score_scoring_raises(2) [OF assms m this] show ?thesis by simp
  next
    case f: (Inr f)
    show ?thesis
    proof (cases "significance st (d0(''MONOMER'' \<mapsto> m, ''FEATURE'' \<mapsto> f)) mmr lag")
      case (Inl e)
      from score_significance_raises(2) [OF assms m f this] show ?thesis by simp
    next
      case (Inr s)
      from score_completes(2) [OF assms m f this] show ?thesis by simp
    qed
  qed
qed

theorem score_checks_no_configuration_witness:
  "(\<exists>rest. trace (snd (score strict_stages ''a.secat'' None 2 5 4 5 7 2 50000 example_world)) = Started Monomer # rest) \<and>
   (\<exists>d'. read_db (files (snd (score strict_stages ''a.secat'' None 2 5 4 5 7 2 50000 example_world))) ''a.secat'' = Inr d' \<and>
         d' ''MONOMER'' = Some example_table)"
  using score_checks_no_configuration [of example_world "''a.secat''" None "''a.secat''" example_world example_db
          strict_stages 2 5 4 5 7 2 50000 example_table]
  by (simp add: example_world_simps define_outfile_None strict_stages_def)

text \<open>
  The claim as stated fails: with \<^verbatim>\<open>minimum_peptides = 5 > maximum_peptides = 4\<close> and
  \<^verbatim>\<open>minimum_mass_ratio = 7\<close>, and stage functions that refuse such options, monomer
  detection has run and MONOMER is written before \<^verbatim>\<open>scoring\<close> refuses.
\<close>

theorem score_invalid_configuration_counterexample:
  "(4::int) < 5 \<and> \<not> ((7::real) \<le> 1) \<and>
   fst (score strict_stages ''a.secat'' None 2 5 4 5 7 2 50000 example_world) = Inl (ValueError ''minimum_peptides'') \<and>
   trace (snd (score strict_stages ''a.secat'' None 2 5 4 5 7 2 50000 example_world)) =
     [Started Monomer, Wrote ''a.secat'' ''MONOMER'', Started Scoring] \<and>
   files (snd (score strict_stages ''a.secat'' None 2 5 4 5 7 2 50000 example_world)) ''a.secat'' =
     Some (Sqlite (example_db(''MONOMER'' \<mapsto> example_table)))"
  using score_scoring_raises [of example_world "''a.secat''" None "''a.secat''" example_world example_db
          strict_stages 2 example_table 50000 5 4 5 "ValueError ''minimum_peptides''" 7 2]
  by (simp add: example_world_simps define_outfile_None strict_stages_def score_events_def)

lemma chain_trace:
  assumes ex: "files w infile \<noteq> None"
      and outf: "define_outfile infile outfile w = (Inr out, w1)"
      and rd: "read_db (files w1) out = Inr d0"
  shows "\<exists>k\<ge>1. trace (snd (and_then (score st infile outfile ctf minp maxp mino mmr lag ch)
                               (\<lambda>_. quantify st out None) w)) =
               trace w1 @ take k (score_events out @ quantify_events out)"
    and "fst (and_then (score st infile outfile ctf minp maxp mino mmr lag ch) (\<lambda>_. quantify st out None) w) = Inr () \<Longrightarrow>
         trace (snd (and_then (score st infile outfile ctf minp maxp mino mmr lag ch)
                        (\<lambda>_. quantify st out None) w)) =
           trace w1 @ score_events out @ quantify_events out"
proof -
  let ?R = "score st infile outfile ctf minp maxp mino mmr lag ch w"
  let ?C = "and_then (score st infile outfile ctf minp maxp mino mmr lag ch) (\<lambda>_. quantify st out None) w"
  have len: "length (score_events out) = 6" by (simp add: score_events_def)
  have both: "(\<exists>k\<ge>1. trace (snd ?C) = trace w1 @ take k (score_events out @ quantify_events out)) \<and>
              (fst ?C = Inr () \<longrightarrow> trace (snd ?C) = trace w1 @ score_events out @ quantify_events out)"
  proof (cases "fst ?R")
    case (Inl e)
    then have C: "?C = ?R" by (cases ?R) (simp add: and_then_def)
    from score_trace_prefix [OF ex outf rd, of st ctf minp maxp mino mmr lag ch]
    obtain k where k: "1 \<le> k" and t: "trace (snd ?R) = trace w1 @ take k (score_events out)" by blast
    have "take k (score_events out) = take (min k 6) (score_events out @ quantify_events out)"
      using len by (simp add: min_def)
    with t k C Inl show ?thesis by (intro conjI exI [of _ "min k 6"]) simp_all
  next
    case (Inr u)
    then have ok: "fst ?R = Inr ()" by simp
    then have C: "?C = quantify st out None (snd ?R)" by (cases ?R) (simp add: and_then_def)
    from score_succeeds [OF ex outf rd ok] obtain m f s where m: "monomer st d0 ctf = Inr m"
      and f: "scoring st (d0(''MONOMER'' \<mapsto> m)) ch minp maxp mino = Inr f"
      and s: "significance st (d0(''MONOMER'' \<mapsto> m, ''FEATURE'' \<mapsto> f)) mmr lag = Inr s"
      by blast
    from score_completes(2,3) [OF ex outf rd m f s]
    have fs: "files (snd ?R) = (files w1)(out \<mapsto> Sqlite (d0(''MONOMER'' \<mapsto> m, ''FEATURE'' \<mapsto> f, ''FEATURE_SCORED'' \<mapsto> s)))"
      and ts: "trace (snd ?R) = trace w1 @ score_events out" by simp_all
    have ex2: "files (snd ?R) out \<noteq> None" by (simp add: fs)
    have outf2: "define_outfile out None (snd ?R) = (Inr out, snd ?R)" by (rule define_outfile_None)
    have rd2: "read_db (files (snd ?R)) out = Inr (d0(''MONOMER'' \<mapsto> m, ''FEATURE'' \<mapsto> f, ''FEATURE_SCORED'' \<mapsto> s))"
      by (simp add: fs)
    from quantify_trace_prefix [OF ex2 outf2 rd2, of st]
    obtain k where k: "1 \<le> k" and t: "trace (snd (quantify st out None (snd ?R))) = trace (snd ?R) @ take k (quantify_events out)"
      by blast
    have 1: "\<exists>k\<ge>1. trace (snd ?C) = trace w1 @ take k (score_events out @ quantify_events out)"
      using t ts len C by (intro exI [of _ "6 + k"]) simp
    have 2: "fst ?C = Inr () \<longrightarrow> trace (snd ?C) = trace w1 @ score_events out @ quantify_events out"
      using quantify_succeeds_trace [OF ex2 outf2 rd2, of st] ts C by simp
    from 1 2 show ?thesis by blast
  qed
  from both show "\<exists>k\<ge>1. trace (snd ?C) = trace w1 @ take k (score_events out @ quantify_events out)" by blast
  from both show "fst ?C = Inr () \<Longrightarrow> trace (snd ?C) = trace w1 @ score_events out @ quantify_events out" by blast
qed

lemma score_succeeds_ex:
  assumes "files w infile \<noteq> None"
      and "define_outfile infile outfile w = (Inr out, w1)"
      and "read_db (files w1) out = Inr d0"
      and "fst (score st infile outfile ctf minp maxp mino mmr lag ch w) = Inr ()"
  shows "\<exists>m f s. monomer st d0 ctf = Inr m \<and>
           scoring st (d0(''MONOMER'' \<mapsto> m)) ch minp maxp mino = Inr f \<and>
           significance st (d0(''MONOMER'' \<mapsto> m, ''FEATURE'' \<mapsto> f)) mmr lag = Inr s"
  using score_succeeds [OF assms] by metis

lemma quantify_succeeds_ex:
  assumes "files w infile \<noteq> None"
      and "define_outfile infile outfile w = (Inr out, w1)"
      and "read_db (files w1) out = Inr d0"
      and "fst (quantify st infile outfile w) = Inr ()"
  shows "\<exists>c t. quantitative_matrix st d0 = Inr c \<and> quantitative_test st (d0(''COMPLEX_QM'' \<mapsto> c)) = Inr t"
  using quantify_succeeds [OF assms] by metis

text \<open>
  C5, as amended: the order of the stages is fixed inside each command, not between the
  commands. In every run of \<^verbatim>\<open>score\<close> the events are an initial part of: monomer
  detection, MONOMER written, feature scoring, FEATURE written, significance assessment,
  FEATURE_SCORED written; in every run of \<^verbatim>\<open>quantify\<close> an initial part of: quantitative
  matrix, COMPLEX_QM written, differential test, its five tables written. A run that
  succeeds has all of them, and each of its stage functions has returned on the database
  that holds the tables of the stages before it. When \<^verbatim>\<open>quantify\<close> is chained after
  \<^verbatim>\<open>score\<close> on the working file, the events are an initial part of the first sequence
  followed by the second.
\<close>

theorem stages_in_order:
  assumes "files w infile \<noteq> None"
      and "define_outfile infile outfile w = (Inr out, w1)"
      and "read_db (files w1) out = Inr d0"
  shows
    "(\<exists>k\<ge>1. trace (snd (score st infile outfile ctf minp maxp mino mmr lag ch w)) =
               trace w1 @ take k (score_events out)) \<and>
     (fst (score st infile outfile ctf minp maxp mino mmr lag ch w) = Inr () \<longrightarrow>
        trace (snd (score st infile outfile ctf minp maxp mino mmr lag ch w)) = trace w1 @ score_events out) \<and>
     (fst (score st infile outfile ctf minp maxp mino mmr lag ch w) = Inr () \<longrightarrow>
        (\<exists>m f s. monomer st d0 ctf = Inr m \<and>
           scoring st (d0(''MONOMER'' \<mapsto> m)) ch minp maxp mino = Inr f \<and>
           significance st (d0(''MONOMER'' \<mapsto> m, ''FEATURE'' \<mapsto> f)) mmr lag = Inr s)) \<and>
     (\<exists>k\<ge>1. trace (snd (quantify st infile outfile w)) = trace w1 @ take k (quantify_events out)) \<and>
     (fst (quantify st infile outfile w) = Inr () \<longrightarrow>
        trace (snd (quantify st infile outfile w)) = trace w1 @ quantify_events out) \<and>
     (fst (quantify st infile outfile w) = Inr () \<longrightarrow>
        (\<exists>c t. quantitative_matrix st d0 = Inr c \<and> quantitative_test st (d0(''COMPLEX_QM'' \<mapsto> c)) = Inr t)) \<and>
     (\<exists>k\<ge>1. trace (snd (and_then (score st infile outfile ctf minp maxp mino mmr lag ch)
                              (\<lambda>_. quantify st out None) w)) =
               trace w1 @ take k (score_events out @ quantify_events out)) \<and>
     (fst (and_then (score st infile outfile ctf minp maxp mino mmr lag ch) (\<lambda>_. quantify st out None) w) = Inr () \<longrightarrow>
        trace (snd (and_then (score st infile outfile ctf minp maxp mino mmr lag ch)
                       (\<lambda>_. quantify st out None) w)) =
          trace w1 @ score_events out @ quantify_events out)"
proof (intro conjI impI)
  show "\<exists>k\<ge>1. trace (snd (score st infile outfile ctf minp maxp mino mmr lag ch w)) =
               trace w1 @ take k (score_events out)"
    by (rule score_trace_prefix [OF assms])
  show "\<exists>k\<ge>1. trace (snd (quantify st infile outfile w)) = trace w1 @ take k (quantify_events out)"
    by (rule quantify_trace_prefix [OF assms])
  show "\<exists>k\<ge>1. trace (snd (and_then (score st infile outfile ctf minp maxp mino mmr lag ch)
                              (\<lambda>_. quantify st out None) w)) =
               trace w1 @ take k (score_events out @ quantify_events out)"
    by (rule chain_trace(1) [OF assms])
next
  assume ok: "fst (score st infile outfile ctf minp maxp mino mmr lag ch w) = Inr ()"
  show "trace (snd (score st infile outfile ctf minp maxp mino mmr lag ch w)) = trace w1 @ score_events out"
    by (rule score_succeeds_trace [OF assms ok])
  show "\<exists>m f s. monomer st d0 ctf = Inr m \<and>
           scoring st (d0(''MONOMER'' \<mapsto> m)) ch minp maxp mino = Inr f \<and>
           significance st (d0(''MONOMER'' \<mapsto> m, ''FEATURE'' \<mapsto> f)) mmr lag = Inr s"
    by (rule score_succeeds_ex [OF assms ok])
next
  assume ok: "fst (quantify st infile outfile w) = Inr ()"
  show "trace (snd (quantify st infile outfile w)) = trace w1 @ quantify_events out"
    by (rule quantify_succeeds_trace [OF assms ok])
  show "\<exists>c t. quantitative_matrix st d0 = Inr c \<and> quantitative_test st (d0(''COMPLEX_QM'' \<mapsto> c)) = Inr t"
    by (rule quantify_succeeds_ex [OF assms ok])
next
  assume "fst (and_then (score st infile outfile ctf minp maxp mino mmr lag ch) (\<lambda>_. quantify st out None) w) = Inr ()"
  then show "trace (snd (and_then (score st infile outfile ctf minp maxp mino mmr lag ch)
                       (\<lambda>_. quantify st out None) w)) =
          trace w1 @ score_events out @ quantify_events out"
    by (rule chain_trace(2) [OF assms])
qed

theorem stages_in_order_witness:
  "trace (snd (score lenient_stages ''a.secat'' None 2 4 4 5 0.2 2 50000 example_world)) = score_events ''a.secat'' \<and>
   trace (snd (quantify lenient_stages ''a.secat'' None example_world)) = quantify_events ''a.secat''"
proof -
  have s: "fst (score lenient_stages ''a.secat'' None 2 4 4 5 0.2 2 50000 example_world) = Inr ()"
    by (rule score_completes(1) [of _ _ None "''a.secat''" example_world example_db _ _ example_table _ _ _ _ example_table _ _ example_table])
       (simp_all add: example_world_simps define_outfile_None lenient_stages_def)
  have q: "fst (quantify lenient_stages ''a.secat'' None example_world) = Inr ()"
    by (rule quantify_completes(1) [of _ _ None "''a.secat''" example_world example_db _ example_table example_qt])
       (simp_all add: example_world_simps define_outfile_None lenient_stages_def)
  from stages_in_order [of example_world "''a.secat''" None "''a.secat''" example_world example_db
         lenient_stages 2 4 4 5 "0.2" 2 50000] s q
  show ?thesis by (simp add: example_world_simps define_outfile_None)
qed

text \<open>
  The claim as stated fails: on a file that holds FEATURE_SCORED, \<^verbatim>\<open>quantify\<close> followed
  by \<^verbatim>\<open>score\<close> succeeds, with stage functions that need their input tables, and the
  quantitative matrix and the differential test run before monomer detection.
\<close>

theorem quantify_before_score_counterexample:
  "fst (quantify strict_stages ''a.secat'' None example_scored_world) = Inr () \<and>
   fst (score strict_stages ''a.secat'' None 2 4 4 5 0.2 2 50000
          (snd (quantify strict_stages ''a.secat'' None example_scored_world))) = Inr () \<and>
   trace (snd (score strict_stages ''a.secat'' None 2 4 4 5 0.2 2 50000
          (snd (quantify strict_stages ''a.secat'' None example_scored_world)))) =
     quantify_events ''a.secat'' @ score_events ''a.secat''"
proof -
  let ?w1 = "snd (quantify strict_stages ''a.secat'' None example_scored_world)"
  let ?d1 = "example_scored_db(''COMPLEX_QM'' \<mapsto> example_table, ''EDGE_DIRECTIONAL'' \<mapsto> edge_directional example_qt,
              ''EDGE'' \<mapsto> edge example_qt, ''EDGE_LEVEL'' \<mapsto> edge_level example_qt, ''NODE'' \<mapsto> node example_qt,
              ''NODE_LEVEL'' \<mapsto> node_level example_qt)"
  have ex: "files example_scored_world ''a.secat'' \<noteq> None" by (simp add: example_scored_world_def)
  have rd: "read_db (files example_scored_world) ''a.secat'' = Inr example_scored_db"
    by (simp add: example_scored_world_def read_db_def)
  have c: "quantitative_matrix strict_stages example_scored_db = Inr example_table"
    by (simp add: strict_stages_def example_scored_db_def)
  have t: "quantitative_test strict_stages (example_scored_db(''COMPLEX_QM'' \<mapsto> example_table)) = Inr example_qt"
    by (simp add: strict_stages_def)
  note q = quantify_completes [OF ex define_outfile_None rd c t]
  have fw1: "files ?w1 = (files example_scored_world)(''a.secat'' \<mapsto> Sqlite ?d1)" by (rule q(2))
  have tw1: "trace ?w1 = quantify_events ''a.secat''" using q(3) by (simp add: example_scored_world_def)
  have ex1: "files ?w1 ''a.secat'' \<noteq> None" by (simp add: fw1)
  have rd1: "read_db (files ?w1) ''a.secat'' = Inr ?d1" by (simp add: fw1)
  have m: "monomer strict_stages ?d1 2 = Inr example_table" by (simp add: strict_stages_def)
  have f: "scoring strict_stages (?d1(''MONOMER'' \<mapsto> example_table)) 50000 4 4 5 = Inr example_table"
    by (simp add: strict_stages_def)
  have s: "significance strict_stages (?d1(''MONOMER'' \<mapsto> example_table, ''FEATURE'' \<mapsto> example_table)) 0.2 2 =
             Inr example_table"
    by (simp add: strict_stages_def)
  note r = score_completes [OF ex1 define_outfile_None rd1 m f s]
  from q(1) r(1) r(3) tw1 show ?thesis by simp
qed












section \<open>Properties of export\<close>

lemma upper_export_names [simp]:
  "upper ''node'' = ''NODE''" "upper ''node_level'' = ''NODE_LEVEL''"
  "upper ''edge_directional'' = ''EDGE_DIRECTIONAL''" "upper ''edge'' = ''EDGE''"
  "upper ''edge_level'' = ''EDGE_LEVEL''"
  by (simp_all add: upper_def toupper_def)

lemma select_all_eq:
  "read_db (files w) p = Inr d \<Longrightarrow>
   select_all p name w = (case d (upper name) of None \<Rightarrow> (Inl (no_such_table name), w) | Some t \<Rightarrow> (Inr t, w))"
  by (simp add: select_all_def)

lemma export_unreadable:
  "path_exists infile w = (Inl e, w') \<Longrightarrow> export infile w = (Inl e, w')"
  by (simp add: export_def and_then_Inl)

text \<open>
  C9: when the input database lacks one of NODE, NODE_LEVEL, EDGE_DIRECTIONAL, EDGE and
  EDGE_LEVEL, \<^verbatim>\<open>export\<close> ends with an error and the world is as before: no CSV file is
  written, since all five tables are read before the first \<^verbatim>\<open>to_csv\<close>.
\<close>

theorem export_missing_table_writes_nothing:
  assumes rd: "read_db (files w) infile = Inr d"
      and missing: "d ''NODE'' = None \<or> d ''NODE_LEVEL'' = None \<or> d ''EDGE_DIRECTIONAL'' = None \<or>
                    d ''EDGE'' = None \<or> d ''EDGE_LEVEL'' = None"
  shows "\<exists>e. export infile w = (Inl e, w)"
proof (cases "files w infile")
  case None
  then show ?thesis by (simp add: export_def and_then_def path_exists_def)
next
  case (Some c)
  then have ex: "path_exists infile w = (Inr (), w)" by (simp add: path_exists_def)
  show ?thesis
  proof (cases "d ''NODE''")
    case None
    then show ?thesis by (simp add: export_def Let_def and_then_def ex select_all_eq [OF rd])
  next
    case n: (Some n)
    show ?thesis
    proof (cases "d ''NODE_LEVEL''")
      case None
      with n show ?thesis by (simp add: export_def Let_def and_then_def ex select_all_eq [OF rd])
    next
      case nl: (Some nl)
      show ?thesis
      proof (cases "d ''EDGE_DIRECTIONAL''")
        case None
        with n nl show ?thesis by (simp add: export_def Let_def and_then_def ex select_all_eq [OF rd])
      next
        case ed: (Some ed)
        show ?thesis
        proof (cases "d ''EDGE''")
          case None
          with n nl ed show ?thesis
            by (simp add: export_def Let_def and_then_def ex select_all_eq [OF rd])
        next
          case e: (Some e)
          with missing n nl ed have "d ''EDGE_LEVEL'' = None" by simp
          with n nl ed e show ?thesis
            by (simp add: export_def Let_def and_then_def ex select_all_eq [OF rd])
        qed
      qed
    qed
  qed
qed

theorem export_missing_table_writes_nothing_witness:
  "\<exists>e. export ''a.secat'' export_example = (Inl e, export_example)"
  using export_missing_table_writes_nothing [of export_example "''a.secat''"
          "[''NODE'' \<mapsto> example_table, ''NODE_LEVEL'' \<mapsto> example_table,
            ''EDGE_DIRECTIONAL'' \<mapsto> example_table, ''EDGE'' \<mapsto> example_table]"]
  by (simp add: export_example_def read_db_def)

section \<open>Properties of plot_features\<close>

lemma keeps_and_then:
  assumes "keeps m" and "\<And>a. keeps (f a)"
  shows "keeps (and_then m f)"
  unfolding keeps_def
proof (intro allI impI)
  fix w assume inv: "no_combined w"
  obtain r w1 where mw: "m w = (r, w1)" by (cases "m w")
  with assms(1) inv have inv1: "no_combined w1" by (auto simp: keeps_def dest: spec [of _ w])
  show "no_combined (snd (and_then m f w))"
  proof (cases r)
    case (Inl e)
    with mw inv1 show ?thesis by (simp add: and_then_def)
  next
    case (Inr a)
    with mw have "and_then m f w = f a w1" by (simp add: and_then_def)
    with assms(2) [of a] inv1 show ?thesis by (simp add: keeps_def)
  qed
qed

lemma keeps_files: "(\<And>w. files (snd (c w)) = files w) \<Longrightarrow> keeps c"
  by (simp add: keeps_def no_combined_def)

lemma keeps_return_ok: "keeps (return_ok a)"
  by (rule keeps_files) (simp add: return_ok_def)

lemma keeps_raise: "keeps (raise e)"
  by (rule keeps_files) (simp add: raise_def)

lemma keeps_path_exists: "keeps (path_exists p)"
  by (rule keeps_files) (simp add: path_exists_def split: option.splits)

lemma keeps_parse: "keeps (parse p f)"
  by (rule keeps_files) (simp add: parse_def)

lemma keeps_call: "keeps (call r)"
  by (rule keeps_files) (simp add: call_def)

lemma keeps_run_stage: "keeps (run_stage s p f)"
  by (rule keeps_files) (simp add: run_stage_def Let_def split: sum.splits)

lemma read_db_no_combined:
  "no_combined w \<Longrightarrow> read_db (files w) p = Inr d \<Longrightarrow> d ''FEATURE_SCORED_COMBINED'' = None"
  by (auto simp: no_combined_def read_db_def split: option.splits content.splits)

lemma no_combined_write:
  "no_combined w \<Longrightarrow> d ''FEATURE_SCORED_COMBINED'' = None \<Longrightarrow>
   no_combined (w\<lparr>files := (files w)(p \<mapsto> Sqlite d)\<rparr>)"
  by (simp add: no_combined_def)

lemma no_combined_trace [simp]: "no_combined (w\<lparr>trace := t\<rparr>) = no_combined w"
  by (simp add: no_combined_def)

lemma keeps_to_sql:
  assumes "upper name \<noteq> ''FEATURE_SCORED_COMBINED''"
  shows "keeps (to_sql p name t m)"
  unfolding keeps_def
proof (intro allI impI)
  fix w assume inv: "no_combined w"
  show "no_combined (snd (to_sql p name t m w))"
  proof (cases "read_db (files w) p")
    case (Inl e)
    with inv show ?thesis by (simp add: to_sql_def)
  next
    case (Inr d)
    from read_db_no_combined [OF inv Inr] have none: "d ''FEATURE_SCORED_COMBINED'' = None" .
    show ?thesis
    proof (cases "write_table d name t m")
      case (Inl e)
      with Inr inv show ?thesis by (simp add: to_sql_def)
    next
      case w: (Inr d')
      with none assms have "d' ''FEATURE_SCORED_COMBINED'' = None"
        by (auto simp: write_table_def split: if_exists.splits if_splits)
      from no_combined_write [of w d' p] inv this Inr w show ?thesis by (simp add: to_sql_def)
    qed
  qed
qed

lemma keeps_copyfile: "keeps (copyfile src dst)"
  by (auto simp: keeps_def copyfile_def no_combined_def split: option.splits)

lemma keeps_remove_file: "keeps (remove_file p)"
  by (auto simp: keeps_def remove_file_def no_combined_def)

lemma keeps_connect: "keeps (connect p)"
  by (auto simp: keeps_def connect_def no_combined_def split: option.splits)

lemma keeps_in_turn: "(\<And>c. c \<in> set cs \<Longrightarrow> keeps c) \<Longrightarrow> keeps (in_turn cs)"
  by (induction cs) (auto intro!: keeps_and_then keeps_return_ok)

lemma upper_written_names [simp]:
  "upper ''PROTEIN'' = ''PROTEIN''" "upper ''NETWORK'' = ''NETWORK''" "upper ''SEC'' = ''SEC''"
  "upper ''QUANTIFICATION'' = ''QUANTIFICATION''" "upper ''PEPTIDE_META'' = ''PEPTIDE_META''"
  "upper ''PROTEIN_META'' = ''PROTEIN_META''" "upper ''QUERY'' = ''QUERY''"
  by (simp_all add: upper_def toupper_def)

lemma keeps_quantification_loop: "keeps (quantification_loop ps outfile columns run_ids infiles q)"
  by (induction infiles arbitrary: q)
     (auto intro!: keeps_and_then keeps_return_ok keeps_parse keeps_to_sql)

lemma keeps_define_outfile: "keeps (define_outfile infile outfile)"
  by (cases outfile) (auto simp: define_outfile_def intro!: keeps_and_then keeps_return_ok keeps_copyfile)

lemma keeps_score: "keeps (score st infile outfile ctf minp maxp mino mmr lag ch)"
  unfolding score_def
  by (intro keeps_and_then keeps_path_exists keeps_define_outfile keeps_run_stage keeps_to_sql) simp_all

lemma keeps_quantify: "keeps (quantify st infile outfile)"
  unfolding quantify_def
  by (intro keeps_and_then keeps_path_exists keeps_define_outfile keeps_run_stage keeps_to_sql) simp_all

lemma keeps_in_turn_map: "(\<And>x. keeps (f x)) \<Longrightarrow> keeps (in_turn (map f xs))"
  by (rule keeps_in_turn) auto

lemma keeps_case_option:
  "keeps n \<Longrightarrow> (\<And>x. keeps (s x)) \<Longrightarrow> keeps (case q of None \<Rightarrow> n | Some x \<Rightarrow> s x)"
  by (cases q) simp_all

lemma keeps_begin_transaction: "keeps (begin_transaction p)"
  by (rule keeps_files) (simp add: begin_transaction_def)

lemma keeps_vacuum: "keeps (vacuum pending)"
  by (rule keeps_files) (simp add: vacuum_def raise_def return_ok_def split: option.splits)

lemma keeps_close_connection: "keeps (close_connection pending)"
  by (rule keeps_files) (simp add: close_connection_def return_ok_def)

lemma keeps_preprocess:
  "keeps (preprocess ps infiles outfile secfile netfile uniprotfile columns b1 b2 b3 conf)"
  unfolding preprocess_def Let_def
  by (intro keeps_and_then keeps_case_option keeps_in_turn_map keeps_path_exists keeps_remove_file
        keeps_connect keeps_parse keeps_call keeps_raise keeps_quantification_loop keeps_to_sql
        keeps_begin_transaction keeps_vacuum keeps_close_connection)
     simp_all

lemma produced_no_combined: "produced w \<Longrightarrow> no_combined w"
proof (induction rule: produced.induct)
  case (start w)
  then show ?case by (simp add: no_combined_def)
next
  case (by_preprocess w ps infiles outfile secfile netfile uniprotfile columns b1 b2 b3 conf)
  with keeps_preprocess show ?case by (simp add: keeps_def)
next
  case (by_score w st infile outfile ctf minp maxp mino mmr lag ch)
  with keeps_score show ?case by (simp add: keeps_def)
next
  case (by_quantify w st infile outfile)
  with keeps_quantify show ?case by (simp add: keeps_def)
qed

lemma read_sql_eq:
  "read_db (files w) p = Inr d \<Longrightarrow>
   read_sql env p stmt w =
     (case missing_table d (tables_of stmt) of
        Some t \<Rightarrow> (Inl (no_such_table t), w)
      | None \<Rightarrow> (Inr (sqlite env stmt d), w))"
  by (simp add: read_sql_def)

lemma upper_combined [simp]: "upper ''FEATURE_SCORED_COMBINED'' = ''FEATURE_SCORED_COMBINED''"
  by (simp add: upper_def toupper_def)

lemma plot_features_no_combined:
  assumes rd: "read_db (files w) infile = Inr d"
      and none: "d ''FEATURE_SCORED_COMBINED'' = None"
  shows "\<exists>t. plot_features env infile interaction_id interaction_qvalue bait_id bait_qvalue peptide_rank w =
             (Inl (no_such_table t), w)"
    and "missing_table d (tables_of ReadFeatures @ tables_of (ReadPeptides peptide_rank)) = None \<Longrightarrow>
         plot_features env infile interaction_id interaction_qvalue bait_id bait_qvalue peptide_rank w =
           (Inl (no_such_table ''FEATURE_SCORED_COMBINED''), w)"
proof -
  have dm: "read_interactions_dmeta env infile w = (Inl (no_such_table ''FEATURE_SCORED_COMBINED''), w)"
    using none by (simp add: read_interactions_dmeta_def read_sql_eq [OF rd])
  show "\<exists>t. plot_features env infile interaction_id interaction_qvalue bait_id bait_qvalue peptide_rank w =
             (Inl (no_such_table t), w)"
  proof (cases "missing_table d (tables_of ReadFeatures)")
    case (Some t)
    then show ?thesis
      by (auto simp add: plot_features_def and_then_def read_features_def read_sql_eq [OF rd])
  next
    case f: None
    show ?thesis
    proof (cases "missing_table d (tables_of (ReadPeptides peptide_rank))")
      case (Some t)
      with f show ?thesis
        by (auto simp add: plot_features_def and_then_def read_features_def read_peptides_def read_sql_eq [OF rd])
    next
      case None
      with f dm show ?thesis
        by (auto simp add: plot_features_def and_then_def read_features_def read_peptides_def read_sql_eq [OF rd])
    qed
  qed
  assume "missing_table d (tables_of ReadFeatures @ tables_of (ReadPeptides peptide_rank)) = None"
  then have "missing_table d (tables_of ReadFeatures) = None"
    and "missing_table d (tables_of (ReadPeptides peptide_rank)) = None"
    by (simp_all split: if_splits)
  with dm show "plot_features env infile interaction_id interaction_qvalue bait_id bait_qvalue peptide_rank w =
           (Inl (no_such_table ''FEATURE_SCORED_COMBINED''), w)"
    by (simp add: plot_features_def and_then_def read_features_def read_peptides_def read_sql_eq [OF rd])
qed

text \<open>
  C7: in a world that \<^verbatim>\<open>preprocess\<close>, \<^verbatim>\<open>score\<close> and \<^verbatim>\<open>quantify\<close> produced, in any
  combination, constructing \<^verbatim>\<open>plot_features\<close> on a database file ends with a
  missing-table error and leaves the world as it was, so no plot is made: no command
  writes FEATURE_SCORED_COMBINED, which \<^verbatim>\<open>read_interactions_dmeta\<close> reads. When the
  tables read before it are all there, FEATURE_SCORED_COMBINED is the table reported.
\<close>

theorem plot_features_fails_on_pipeline_database:
  assumes "produced w" and "files w infile = Some (Sqlite d)"
  shows
    "(\<exists>t. plot_features env infile interaction_id interaction_qvalue bait_id bait_qvalue peptide_rank w =
            (Inl (no_such_table t), w)) \<and>
     (missing_table d (tables_of ReadFeatures @ tables_of (ReadPeptides peptide_rank)) = None \<longrightarrow>
        plot_features env infile interaction_id interaction_qvalue bait_id bait_qvalue peptide_rank w =
          (Inl (no_such_table ''FEATURE_SCORED_COMBINED''), w))"
proof -
  from assms(2) have rd: "read_db (files w) infile = Inr d" by (simp add: read_db_def)
  from produced_no_combined [OF assms(1)] assms(2) have none: "d ''FEATURE_SCORED_COMBINED'' = None"
    by (simp add: no_combined_def)
  from plot_features_no_combined [OF rd none] show ?thesis by blast
qed

lemma table_atD: "table_at w p name = Some t \<Longrightarrow> \<exists>d. files w p = Some (Sqlite d) \<and> d (upper name) = Some t"
  by (auto simp: table_at_def split: option.splits content.splits)

lemma example_pipeline_node: "table_at example_pipeline ''out.secat'' ''NODE'' = Some example_table"
  by code_simp

lemma example_inputs_no_database: "\<forall>p d. files example_inputs p \<noteq> Some (Sqlite d)"
  by (simp add: example_inputs_def)

lemma produced_example_pipeline: "produced example_pipeline"
  unfolding example_pipeline_def example_preprocess_def
  by (intro produced.by_quantify produced.by_score produced.by_preprocess produced.start
        example_inputs_no_database)

theorem plot_features_fails_on_pipeline_database_witness:
  "\<exists>t. plot_features example_plot_env ''out.secat'' (Some ''P1_P2'') None None None 6 example_pipeline =
         (Inl (no_such_table t), example_pipeline)"
proof -
  from table_atD [OF example_pipeline_node]
  obtain d where "files example_pipeline ''out.secat'' = Some (Sqlite d)" by blast
  from plot_features_fails_on_pipeline_database [OF produced_example_pipeline this]
  show ?thesis by blast
qed

section \<open>Properties of preprocess\<close>

text \<open>
  \<^verbatim>\<open>preprocess\<close> never returns normally: a run that gets as far as \<^verbatim>\<open>VACUUM\<close> has
  an open transaction, begun by the first \<^verbatim>\<open>DELETE\<close>, and ends with SQLite's refusal.
\<close>

lemma and_then_okE:
  assumes "fst (and_then m f w) = Inr b"
  obtains a w' where "m w = (Inr a, w')" and "fst (f a w') = Inr b"
  using and_then_okD [OF assms] by blast

lemma vacuum_open_transaction: "fst (vacuum (Some d) w) \<noteq> Inr u"
  by (simp add: vacuum_def raise_def)

lemma preprocess_never_completes:
  "fst (preprocess ps infiles outfile secfile netfile uniprotfile columns b1 b2 b3 conf w) \<noteq> Inr ()"
proof
  assume "fst (preprocess ps infiles outfile secfile netfile uniprotfile columns b1 b2 b3 conf w) = Inr ()"
  then show False
    unfolding preprocess_def Let_def
    apply (elim and_then_okE)
    subgoal for a1 w1 a2 w2 a3 w3 a4 w4 a5 w5 a6 w6 a7 w7 a8 w8 a9 w9 q w10
      apply (cases q)
       apply (simp add: raise_def)
      apply simp
      apply (elim and_then_okE)
      apply (simp add: vacuum_def raise_def)
      done
    done
qed

lemma example_two_quantification:
  "table_at (snd (example_preprocess [''q1.csv'', ''q2.csv''])) ''out.secat'' ''QUANTIFICATION'' =
     Some [quantification_row ''r1'' (Text ''P1'') ''p1a'', quantification_row ''r2'' (Text ''P2'') ''p2a'']"
  by code_simp

lemma example_two_protein_meta:
  "table_at (snd (example_preprocess [''q1.csv'', ''q2.csv''])) ''out.secat'' ''PROTEIN_META'' =
     Some [[(''protein_id'', Text ''P2'')]]"
  by code_simp

lemma example_two_peptide_meta:
  "table_at (snd (example_preprocess [''q1.csv'', ''q2.csv''])) ''out.secat'' ''PEPTIDE_META'' =
     Some [[(''peptide_id'', Text ''p2a'')]]"
  by code_simp



text \<open>
  Had the \<^verbatim>\<open>DELETE\<close>s been committed, a NULL \<^verbatim>\<open>protein_id\<close> in QUANTIFICATION would
  still keep every QUERY row: \<^verbatim>\<open>NOT IN\<close> is not true when the result of the subquery holds
  a NULL.
\<close>

lemma delete_keeps_rows_on_null:
  "delete_not_in_or
     [''QUERY'' \<mapsto> [edge_row ''P1'' ''P9''],
      ''QUANTIFICATION'' \<mapsto> [quantification_row ''r1'' (Text ''P1'') ''p1a'', quantification_row ''r2'' Null ''p0'']]
     ''QUERY'' ''bait_id'' ''prey_id'' ''QUANTIFICATION'' ''protein_id'' =
   Inr [''QUERY'' \<mapsto> [edge_row ''P1'' ''P9''],
        ''QUANTIFICATION'' \<mapsto> [quantification_row ''r1'' (Text ''P1'') ''p1a'', quantification_row ''r2'' Null ''p0'']]"
  by (auto simp: delete_not_in_or_def select_distinct_def column_def cell_def edge_row_def
        quantification_row_def not_in_def sql_or_def)

text \<open>
  C1: the claim fails on the code. With the two input files \<^verbatim>\<open>q1.csv\<close> (protein P1)
  and \<^verbatim>\<open>q2.csv\<close> (protein P2), QUANTIFICATION holds the rows of both files, but
  \<^verbatim>\<open>meta\<close> is called with \<^verbatim>\<open>quantification_data\<close>, the object of the last pass of the
  loop: with a \<^verbatim>\<open>meta\<close> that lists the proteins and peptides it is given, PROTEIN_META
  and PEPTIDE_META hold P2 and its peptide only.
\<close>

theorem meta_receives_last_file_only:
  "table_at (snd (example_preprocess [''q1.csv'', ''q2.csv''])) ''out.secat'' ''QUANTIFICATION'' =
     Some [quantification_row ''r1'' (Text ''P1'') ''p1a'', quantification_row ''r2'' (Text ''P2'') ''p2a''] \<and>
   table_at (snd (example_preprocess [''q1.csv'', ''q2.csv''])) ''out.secat'' ''PROTEIN_META'' =
     Some [[(''protein_id'', Text ''P2'')]] \<and>
   table_at (snd (example_preprocess [''q1.csv'', ''q2.csv''])) ''out.secat'' ''PEPTIDE_META'' =
     Some [[(''peptide_id'', Text ''p2a'')]]"
  by (simp only: example_two_quantification example_two_protein_meta example_two_peptide_meta simp_thms)


section \<open>Properties of the q-values\<close>

lemma length_cummin_down [simp]: "length (cummin_down xs) = length xs"
  by (induction xs) (auto split: list.splits)

lemma cummin_down_Nil_iff [simp]: "cummin_down xs = [] \<longleftrightarrow> xs = []"
  by (cases xs) (auto split: list.splits)

lemma cummin_down_Cons:
  "xs \<noteq> [] \<Longrightarrow> cummin_down (x # xs) = min x (cummin_down xs ! 0) # cummin_down xs"
  by (cases "cummin_down xs") auto

lemma cummin_down_nth:
  "i < length xs \<Longrightarrow> cummin_down xs ! i = Min (set (drop i xs))"
proof (induction xs arbitrary: i)
  case Nil
  then show ?case by simp
next
  case (Cons x xs)
  show ?case
  proof (cases "xs = []")
    case True
    with Cons.prems show ?thesis by simp
  next
    case False
    then have hd: "cummin_down xs ! 0 = Min (set xs)" using Cons.IH [of 0] by simp
    show ?thesis
    proof (cases i)
      case 0
      with False hd show ?thesis by (simp add: cummin_down_Cons del: cummin_down.simps)
    next
      case (Suc j)
      with Cons.prems Cons.IH [of j] False show ?thesis by (simp add: cummin_down_Cons del: cummin_down.simps)
    qed
  qed
qed

lemma cummin_down_mono:
  assumes "i \<le> j" and "j < length xs"
  shows "cummin_down xs ! i \<le> cummin_down xs ! j"
proof -
  have "set (drop j xs) \<subseteq> set (drop i xs)"
    using assms(1) by (metis set_drop_subset_set_drop)
  moreover have "set (drop j xs) \<noteq> {}" using assms(2) by simp
  ultimately have "Min (set (drop i xs)) \<le> Min (set (drop j xs))"
    by (intro Min_antimono) simp_all
  with assms show ?thesis by (simp add: cummin_down_nth)
qed

lemma cummin_down_le: "i \<le> k \<Longrightarrow> k < length xs \<Longrightarrow> cummin_down xs ! i \<le> xs ! k"
proof -
  assume ik: "i \<le> k" and k: "k < length xs"
  have "xs ! k \<in> set (drop i xs)"
    using ik k by (metis Cons_nth_drop_Suc in_set_dropD list.set_intros(1) set_drop_subset_set_drop subsetD)
  then have "Min (set (drop i xs)) \<le> xs ! k" by simp
  with ik k show ?thesis by (simp add: cummin_down_nth)
qed

lemma raw_nth:
  assumes "k < length ps"
  shows "map (\<lambda>(p, rank). raw_qvalue pi0 m p rank) (zip ps (map Suc [0..<length ps])) ! k =
         raw_qvalue pi0 m (ps ! k) (Suc k)"
  using assms by simp

lemma raw_qvalue_tie:
  assumes "0 \<le> pi0" and "0 \<le> p" and "k \<le> j"
  shows "raw_qvalue pi0 m p (Suc j) \<le> raw_qvalue pi0 m p (Suc k)"
proof -
  have "0 \<le> p * real m * pi0" using assms(1,2) by simp
  moreover have "real (Suc k) \<le> real (Suc j)" using assms(3) by simp
  moreover have "0 < real (Suc k)" by simp
  ultimately show ?thesis
    unfolding raw_qvalue_def by (intro divide_left_mono) (simp_all add: mult_pos_pos)
qed

lemma qvalue_tie:
  assumes pi0: "0 \<le> pi0" and nonneg: "\<forall>p\<in>set ps. 0 \<le> p" and sorted: "sorted ps"
      and ij: "i \<le> j" and j: "j < length ps" and tie: "ps ! i = ps ! j"
  defines "raw \<equiv> map (\<lambda>(p, rank). raw_qvalue pi0 (length ps) p rank) (zip ps (map Suc [0..<length ps]))"
  shows "cummin_down raw ! j \<le> cummin_down raw ! i"
proof -
  have len: "length raw = length ps" by (simp add: raw_def)
  have i: "i < length ps" using ij j by simp
  have "\<forall>x\<in>set (drop i raw). cummin_down raw ! j \<le> x"
  proof
    fix x assume "x \<in> set (drop i raw)"
    then obtain k where k: "k < length raw - i" and x: "x = drop i raw ! k"
      by (metis in_set_conv_nth length_drop)
    let ?k = "i + k"
    have kl: "?k < length ps" using k len by simp
    have xk: "x = raw ! ?k" using x k by simp
    show "cummin_down raw ! j \<le> x"
    proof (cases "j \<le> ?k")
      case True
      from cummin_down_le [OF True] kl len xk show ?thesis by simp
    next
      case False
      then have kj: "?k \<le> j" by simp
      have "ps ! i \<le> ps ! ?k" using sorted kl by (simp add: sorted_iff_nth_mono)
      moreover have "ps ! ?k \<le> ps ! j" using sorted kj j by (simp add: sorted_iff_nth_mono)
      ultimately have eq: "ps ! ?k = ps ! j" using tie by simp
      have pj: "0 \<le> ps ! j" using nonneg j by simp
      have "cummin_down raw ! j \<le> raw ! j" using cummin_down_le [of j j raw] j len by simp
      also have "raw ! j = raw_qvalue pi0 (length ps) (ps ! j) (Suc j)"
        unfolding raw_def using raw_nth [OF j] .
      also have "\<dots> \<le> raw_qvalue pi0 (length ps) (ps ! j) (Suc ?k)"
        using raw_qvalue_tie [OF pi0 pj kj] .
      also have "\<dots> = raw ! ?k"
        unfolding raw_def using raw_nth [OF kl] eq by simp
      finally show ?thesis using xk by simp
    qed
  qed
  moreover have "set (drop i raw) \<noteq> {}" using i len by simp
  ultimately have "cummin_down raw ! j \<le> Min (set (drop i raw))" by simp
  with i len show ?thesis by (simp add: cummin_down_nth)
qed

text \<open>
  C6: for one set of p-values (each at least 0, as is the estimate \<open>pi0\<close>), the
  q-values do not decrease as the p-values increase: of two output rows, the one with
  the smaller or equal p-value has the smaller or equal q-value; rows with equal
  p-values have equal q-values.
\<close>

theorem qvalues_monotone:
  assumes "0 \<le> pi0" and "\<forall>p\<in>set pvalues. 0 \<le> p"
      and "(p1, q1) \<in> set (qvalues pi0 pvalues)" and "(p2, q2) \<in> set (qvalues pi0 pvalues)"
      and "p1 \<le> p2"
  shows "q1 \<le> q2"
proof -
  let ?ps = "sort pvalues"
  let ?raw = "map (\<lambda>(p, rank). raw_qvalue pi0 (length ?ps) p rank) (zip ?ps (map Suc [0..<length ?ps]))"
  let ?c = "cummin_down ?raw"
  have q: "qvalues pi0 pvalues = zip ?ps ?c" by (simp add: qvalues_def Let_def)
  have len: "length ?raw = length ?ps" by simp
  have nonneg: "\<forall>p\<in>set ?ps. 0 \<le> p" using assms(2) by simp
  have sorted: "sorted ?ps" by simp
  from assms(3) obtain i where i: "i < length ?ps" and p1: "p1 = ?ps ! i" and q1: "q1 = ?c ! i"
    unfolding q by (auto simp: in_set_zip)
  from assms(4) obtain j where j: "j < length ?ps" and p2: "p2 = ?ps ! j" and q2: "q2 = ?c ! j"
    unfolding q by (auto simp: in_set_zip)
  show ?thesis
  proof (cases "i \<le> j")
    case True
    from cummin_down_mono [OF True, of ?raw] j len show ?thesis by (simp only: q1 q2)
  next
    case False
    then have ji: "j \<le> i" by simp
    with sorted i have "?ps ! j \<le> ?ps ! i" by (simp add: sorted_iff_nth_mono)
    with assms(5) p1 p2 have tie: "?ps ! j = ?ps ! i" by simp
    from qvalue_tie [OF assms(1) nonneg sorted ji i tie] show ?thesis by (simp only: q1 q2)
  qed
qed

theorem qvalues_monotone_witness:
  "(0.03, 0.025) \<in> set (qvalues (1/2) [0.04, 0.01, 0.03, 0.03, 0.5]) \<and>
   (0.04, 0.025) \<in> set (qvalues (1/2) [0.04, 0.01, 0.03, 0.03, 0.5]) \<and>
   (0.025::real) \<le> 0.025"
proof -
  have a: "(0.03, 0.025) \<in> set (qvalues (1/2) [0.04, 0.01, 0.03, 0.03, 0.5])"
    by (simp add: qvalues_def raw_qvalue_def)
  have b: "(0.04, 0.025) \<in> set (qvalues (1/2) [0.04, 0.01, 0.03, 0.03, 0.5])"
    by (simp add: qvalues_def raw_qvalue_def)
  have "0 \<le> (1/2::real)" and "\<forall>p\<in>set [0.04, 0.01, 0.03, 0.03, 0.5::real]. 0 \<le> p" and "(0.03::real) \<le> 0.04"
    by simp_all
  from qvalues_monotone [OF this(1,2) a b this(3)] a b show ?thesis by simp
qed

end
